theory Spec2Isabelle
  imports
    Complex_Main
    "HOL-Library.Multiset"
    "HOL-Library.Char_ord"
    "HOL-Library.List_Lexorder"
    "HOL-Library.Product_Lexorder"
begin

section \<open>MT5 trade analysis: the data\<close>

text \<open>
  The embedding follows \<^verbatim>\<open>mt5_trade_analysis.py\<close> and the two callers of its
  history retrieval (\<^verbatim>\<open>main\<close> there, \<^verbatim>\<open>run_analysis\<close> in
  \<^verbatim>\<open>mt5_api_server.py\<close>). A pandas DataFrame is the list of its rows, in row
  order. Prices and amounts are Python and numpy floats; they are modelled as real
  numbers, so rounding, overflow and NaN inputs are outside the model. Deal times are
  epoch seconds; a calendar day (\<^verbatim>\<open>.dt.date\<close> of a UTC timestamp) is the day
  number \<open>time div 86400\<close>.
\<close>

text \<open>The constants of the MetaTrader5 module the source compares against.\<close>

datatype deal_entry = DEAL_ENTRY_IN | DEAL_ENTRY_OUT | DEAL_ENTRY_INOUT | DEAL_ENTRY_OUT_BY

datatype deal_type =
  DEAL_TYPE_BUY | DEAL_TYPE_SELL | DEAL_TYPE_BALANCE | DEAL_TYPE_CREDIT | DEAL_TYPE_OTHER nat

text \<open>A deal of the feed: the columns of \<^verbatim>\<open>columns\<close> that the analysis reads.\<close>

record mt5_deal =
  d_time :: int
  d_type :: deal_type
  d_entry :: deal_entry
  d_position_id :: int
  d_volume :: real
  d_price :: real
  d_commission :: real
  d_swap :: real
  d_profit :: real
  d_symbol :: string

text \<open>An order of the feed: \<^verbatim>\<open>position_id\<close>, \<^verbatim>\<open>sl\<close>, \<^verbatim>\<open>tp\<close> are what the
  source reads; \<open>o_time\<close> is the order's time in the feed, which the source never
  reads (it takes the orders as the feed yields them).\<close>

record mt5_order =
  o_time :: int
  o_position_id :: int
  o_sl :: real
  o_tp :: real

text \<open>The value stored per position in \<^verbatim>\<open>orders_dict\<close>: \<^verbatim>\<open>{'sl': .., 'tp': ..}\<close>.\<close>

record sl_tp =
  e_sl :: real
  e_tp :: real

text \<open>A row of \<^verbatim>\<open>df\<close>: the deal with the columns \<^verbatim>\<open>sl\<close>, \<^verbatim>\<open>tp\<close> and
  \<^verbatim>\<open>time_gmt\<close> added. \<open>None\<close> is the missing value (\<^verbatim>\<open>None\<close>, stored as NaN)
  of a position that has no order.\<close>

record df_row =
  time :: int
  dtype :: deal_type
  entry :: deal_entry
  position_id :: int
  volume :: real
  price :: real
  commission :: real
  swap :: real
  profit :: real
  symbol :: string
  sl :: "real option"
  tp :: "real option"
  time_gmt :: int

text \<open>A row of \<^verbatim>\<open>balance_df\<close>: of its columns only \<^verbatim>\<open>date\<close> and
  \<^verbatim>\<open>profit\<close> are read later.\<close>

record balance_row =
  b_date :: int
  b_profit :: real

datatype close_type = CT_sl | CT_tp | CT_market

text \<open>A row of \<^verbatim>\<open>position_times\<close>: one closed position.\<close>

record closed_position =
  cp_position_id :: int
  cp_open_time :: int
  cp_close_time :: int
  cp_symbol :: string
  cp_volume :: real
  cp_type :: deal_type
  cp_open_price :: real
  cp_close_price :: real
  cp_sl :: "real option"
  cp_tp :: "real option"
  cp_sl_tp_price :: "real option"
  cp_slippage :: real
  cp_close_type :: close_type
  cp_profit :: real
  cp_commission :: real
  cp_swap :: real
  cp_holding_time :: int
  cp_date :: int
  cp_total_profit :: real
  cp_is_profit :: bool
  cp_price_change :: real

section \<open>Helpers for pandas operations\<close>

text \<open>\<^verbatim>\<open>Series.unique()\<close>: the distinct values in order of first appearance.\<close>

definition unique :: "'a list \<Rightarrow> 'a list" where
  "unique xs = rev (remdups (rev xs))"

text \<open>\<^verbatim>\<open>pd.to_datetime(t, unit='s', utc=True).dt.date\<close> as a day number.\<close>

definition date_of :: "int \<Rightarrow> int" where
  "date_of t = t div 86400"

section \<open>get_trades_history\<close>

text \<open>One iteration of the loop over \<^verbatim>\<open>orders\<close> (source lines 75 to 86).\<close>

definition orders_dict_step :: "mt5_order \<Rightarrow> (int \<rightharpoonup> sl_tp) \<Rightarrow> (int \<rightharpoonup> sl_tp)" where
  "orders_dict_step ord orders_dict =
     (case orders_dict (o_position_id ord) of
        None \<Rightarrow> orders_dict(o_position_id ord \<mapsto> \<lparr>e_sl = o_sl ord, e_tp = o_tp ord\<rparr>)
      | Some e \<Rightarrow>
          (let e1 = (if o_sl ord \<noteq> 0 then e\<lparr>e_sl := o_sl ord\<rparr> else e);
               e2 = (if o_tp ord \<noteq> 0 then e1\<lparr>e_tp := o_tp ord\<rparr> else e1)
           in orders_dict(o_position_id ord \<mapsto> e2)))"

text \<open>\<^verbatim>\<open>orders_dict\<close>: empty when \<^verbatim>\<open>history_orders_get\<close> returned None.\<close>

definition build_orders_dict :: "mt5_order list option \<Rightarrow> (int \<rightharpoonup> sl_tp)" where
  "build_orders_dict orders =
     (case orders of
        None \<Rightarrow> Map.empty
      | Some os \<Rightarrow> fold orders_dict_step os Map.empty)"

text \<open>Lines 91 to 98: the deal as a row of \<^verbatim>\<open>df\<close>, with
  \<^verbatim>\<open>orders_dict.get(x, {}).get('sl', None)\<close> and the same for \<^verbatim>\<open>tp\<close>.\<close>

definition attach_sl_tp :: "(int \<rightharpoonup> sl_tp) \<Rightarrow> mt5_deal \<Rightarrow> df_row" where
  "attach_sl_tp orders_dict d =
     \<lparr>time = d_time d, dtype = d_type d, entry = d_entry d,
      position_id = d_position_id d, volume = d_volume d, price = d_price d,
      commission = d_commission d, swap = d_swap d, profit = d_profit d,
      symbol = d_symbol d,
      sl = map_option e_sl (orders_dict (d_position_id d)),
      tp = map_option e_tp (orders_dict (d_position_id d)),
      time_gmt = d_time d\<rparr>"

text \<open>Lines 101 to 107: the position ids whose deal count is at least 2
  (\<^verbatim>\<open>groupby\<close> lists the keys in ascending order).\<close>

definition completed_positions :: "df_row list \<Rightarrow> int list" where
  "completed_positions df =
     filter (\<lambda>pid. length (filter (\<lambda>r. position_id r = pid) df) \<ge> 2)
       (sort (unique (map position_id df)))"

text \<open>Lines 59 to 68: the balance rows, deposits and withdrawals.\<close>

definition build_balance_df :: "mt5_deal list option \<Rightarrow> balance_row list" where
  "build_balance_df account_history =
     (case account_history of
        None \<Rightarrow> []
      | Some ah \<Rightarrow>
          map (\<lambda>d. \<lparr>b_date = date_of (d_time d), b_profit = d_profit d\<rparr>)
            (filter (\<lambda>d. d_type d = DEAL_TYPE_BALANCE \<or> d_type d = DEAL_TYPE_CREDIT)
              (filter (\<lambda>d. d_entry d = DEAL_ENTRY_IN) ah)))"

text \<open>The function from the three results of the terminal's history queries:
  \<^verbatim>\<open>deals\<close>, \<^verbatim>\<open>account_history\<close> and \<^verbatim>\<open>orders\<close>, each \<open>None\<close> when the
  query returned None. The result \<open>None\<close> is the source's \<^verbatim>\<open>return None\<close>.\<close>

definition get_trades_history ::
  "mt5_deal list option \<Rightarrow> mt5_deal list option \<Rightarrow> mt5_order list option \<Rightarrow>
   (df_row list \<times> balance_row list) option" where
  "get_trades_history deals account_history orders =
     (case deals of
        None \<Rightarrow> None
      | Some ds \<Rightarrow>
          (let balance_df = build_balance_df account_history;
               orders_dict = build_orders_dict orders;
               df = map (attach_sl_tp orders_dict) ds;
               df' = filter (\<lambda>r. position_id r \<in> set (completed_positions df)) df
           in if length df' = 0 then None else Some (df', balance_df)))"

section \<open>calculate_position_times\<close>

text \<open>Lines 138 to 154: close type, reference price and slippage of a close record.
  \<^verbatim>\<open>pd.notna(x) and x != 0\<close> holds exactly for \<open>Some v\<close> with \<open>v \<noteq> 0\<close>.\<close>

definition present_nonzero :: "real option \<Rightarrow> bool" where
  "present_nonzero x = (case x of None \<Rightarrow> False | Some v \<Rightarrow> v \<noteq> 0)"

definition classify_close :: "df_row \<Rightarrow> close_type \<times> real option \<times> real" where
  "classify_close close_trade =
     (if present_nonzero (sl close_trade)
      then (CT_sl, Some (the (sl close_trade)), \<bar>price close_trade - the (sl close_trade)\<bar>)
      else if present_nonzero (tp close_trade)
      then (CT_tp, Some (the (tp close_trade)), \<bar>price close_trade - the (tp close_trade)\<bar>)
      else (CT_market, None, 0))"

text \<open>Lines 124 to 128: the deals of one position, ascending in time, and the opening
  and closing deals among them. \<^verbatim>\<open>sort_values\<close> is taken as a stable sort.\<close>

definition position_trades :: "df_row list \<Rightarrow> int \<Rightarrow> df_row list" where
  "position_trades df pid = sort_key time (filter (\<lambda>r. position_id r = pid) df)"

definition open_trades :: "df_row list \<Rightarrow> int \<Rightarrow> df_row list" where
  "open_trades df pid = filter (\<lambda>r. entry r = DEAL_ENTRY_IN) (position_trades df pid)"

definition close_trades :: "df_row list \<Rightarrow> int \<Rightarrow> df_row list" where
  "close_trades df pid = filter (\<lambda>r. entry r = DEAL_ENTRY_OUT) (position_trades df pid)"

text \<open>Lines 134 to 187 with the columns added afterwards (lines 197 to 209): the row
  built for a position that has an opening and a closing deal.\<close>

definition build_position :: "df_row list \<Rightarrow> int \<Rightarrow> closed_position" where
  "build_position df pid =
     (let open_trade = hd (open_trades df pid);
          close_trade = last (close_trades df pid);
          (close_type, sl_tp_price, slippage) = classify_close close_trade;
          open_time = Min (set (map time_gmt (position_trades df pid)));
          close_time = Max (set (map time_gmt (position_trades df pid)));
          profit_sum = sum_list (map profit (position_trades df pid));
          commission_sum = sum_list (map commission (position_trades df pid));
          swap_sum = sum_list (map swap (position_trades df pid))
      in \<lparr>cp_position_id = pid,
          cp_open_time = open_time,
          cp_close_time = close_time,
          cp_symbol = symbol open_trade,
          cp_volume = volume open_trade,
          cp_type = dtype open_trade,
          cp_open_price = price open_trade,
          cp_close_price = price close_trade,
          cp_sl = (if present_nonzero (sl close_trade) then sl close_trade else None),
          cp_tp = (if present_nonzero (tp close_trade) then tp close_trade else None),
          cp_sl_tp_price = sl_tp_price,
          cp_slippage = slippage,
          cp_close_type = close_type,
          cp_profit = profit_sum,
          cp_commission = commission_sum,
          cp_swap = swap_sum,
          cp_holding_time = close_time - open_time,
          cp_date = date_of close_time,
          cp_total_profit = profit_sum + commission_sum + swap_sum,
          cp_is_profit = (profit_sum > 0),
          cp_price_change = \<bar>price close_trade - price open_trade\<bar>\<rparr>)"

text \<open>The body of the loop over the position ids (lines 124 to 187); \<open>None\<close> is the
  \<^verbatim>\<open>continue\<close> of line 131.\<close>

definition position_row :: "df_row list \<Rightarrow> int \<Rightarrow> closed_position option" where
  "position_row df pid =
     (if length (open_trades df pid) = 0 \<or> length (close_trades df pid) = 0 then None
      else Some (build_position df pid))"

definition calculate_position_times :: "df_row list \<Rightarrow> closed_position list" where
  "calculate_position_times df =
     List.map_filter (position_row df) (unique (map position_id df))"

section \<open>Divisions\<close>

text \<open>
  The model follows finite values only. \<open>Inl DivideByZero\<close> records that the source
  evaluated a quotient whose divisor is zero: Python raises ZeroDivisionError when
  both operands are its own numbers, and numpy (the type of every pandas sum and mean)
  warns and yields inf or nan. In both cases the value is no longer a number of the
  model, which does not follow it further.
\<close>

datatype np_error = DivideByZero

definition py_div :: "real \<Rightarrow> real \<Rightarrow> np_error + real" where
  "py_div x y = (if y = 0 then Inl DivideByZero else Inr (x / y))"

definition bind_ok :: "np_error + 'a \<Rightarrow> ('a \<Rightarrow> np_error + 'b) \<Rightarrow> np_error + 'b" where
  "bind_ok r f = (case r of Inl e \<Rightarrow> Inl e | Inr v \<Rightarrow> f v)"

fun all_ok :: "(np_error + 'a) list \<Rightarrow> np_error + 'a list" where
  "all_ok [] = Inr []"
| "all_ok (r # rs) = bind_ok r (\<lambda>v. bind_ok (all_ok rs) (\<lambda>vs. Inr (v # vs)))"

text \<open>\<^verbatim>\<open>Series.mean()\<close>: the sum over the count.\<close>

definition np_mean :: "real list \<Rightarrow> np_error + real" where
  "np_mean xs = py_div (sum_list xs) (real (length xs))"

section \<open>The equity and drawdown recurrence of analyze_trades_by_day\<close>

text \<open>The loop variables \<^verbatim>\<open>max_equity\<close> and \<^verbatim>\<open>max_drawdown\<close>.\<close>

record drawdown_state =
  max_equity :: real
  max_drawdown :: real

text \<open>Lines 680 to 683: the new \<^verbatim>\<open>max_equity\<close>, from the old one, the updated
  \<^verbatim>\<open>current_equity\<close> and \<^verbatim>\<open>daily_balance_change\<close>.\<close>

definition update_max_equity :: "real \<Rightarrow> real \<Rightarrow> real \<Rightarrow> np_error + real" where
  "update_max_equity max_eq current_equity daily_balance_change =
     (if daily_balance_change \<ge> 0
      then Inr (max max_eq (current_equity - daily_balance_change))
      else bind_ok (py_div current_equity (current_equity - daily_balance_change))
             (\<lambda>q. Inr (max (max_eq * q) current_equity)))"

text \<open>Line 686: \<^verbatim>\<open>drawdown = (max_equity - current_equity) / max_equity * 100\<close>.\<close>

definition compute_drawdown :: "real \<Rightarrow> real \<Rightarrow> np_error + real" where
  "compute_drawdown max_eq current_equity =
     bind_ok (py_div (max_eq - current_equity) max_eq) (\<lambda>q. Inr (q * 100))"

text \<open>Lines 680 to 687 together; the second component is the day's \<^verbatim>\<open>drawdown\<close>.\<close>

definition drawdown_update ::
  "drawdown_state \<Rightarrow> real \<Rightarrow> real \<Rightarrow> np_error + (drawdown_state \<times> real)" where
  "drawdown_update s current_equity daily_balance_change =
     bind_ok (update_max_equity (max_equity s) current_equity daily_balance_change)
       (\<lambda>m. bind_ok (compute_drawdown m current_equity)
          (\<lambda>drawdown. Inr (\<lparr>max_equity = m, max_drawdown = max (max_drawdown s) drawdown\<rparr>,
                           drawdown)))"

text \<open>Lines 656 to 660 (and 277 to 281, the same expression): the dates of the closed
  positions and of the balance rows, distinct and ascending.\<close>

definition all_dates :: "closed_position list \<Rightarrow> balance_row list \<Rightarrow> int list" where
  "all_dates position_times_sorted balance_df =
     sort (unique (unique (map cp_date position_times_sorted) @
                   (if balance_df \<noteq> [] then unique (map b_date balance_df) else [])))"

text \<open>The loop of lines 663 to 687 over the remaining dates. The state is
  \<^verbatim>\<open>current_equity\<close> and, while every quotient so far had a non-zero divisor,
  \<^verbatim>\<open>max_equity\<close> and \<^verbatim>\<open>max_drawdown\<close>. After a division by zero the source goes
  on with inf or nan in these two; the model keeps \<open>Inl DivideByZero\<close> for them and
  still follows \<^verbatim>\<open>current_equity\<close>, which no quotient enters.\<close>

fun equity_drawdown_loop ::
  "closed_position list \<Rightarrow> balance_row list \<Rightarrow> int list \<Rightarrow>
   real \<times> (np_error + drawdown_state) \<Rightarrow> real \<times> (np_error + drawdown_state)" where
  "equity_drawdown_loop position_times_sorted balance_df [] st = st"
| "equity_drawdown_loop position_times_sorted balance_df (date # dates) (current_equity, dd) =
     (let daily_trades = filter (\<lambda>p. cp_date p = date) position_times_sorted;
          daily_balance =
            (if balance_df \<noteq> [] then filter (\<lambda>b. b_date b = date) balance_df else []);
          daily_balance_change =
            (if daily_balance \<noteq> [] then sum_list (map b_profit daily_balance) else 0);
          daily_trading_profit =
            (if daily_trades \<noteq> [] then sum_list (map cp_total_profit daily_trades) else 0);
          current_equity' = current_equity + (daily_balance_change + daily_trading_profit);
          dd' = bind_ok dd (\<lambda>s.
                  bind_ok (drawdown_update s current_equity' daily_balance_change)
                    (\<lambda>(s', drawdown). Inr s'))
      in equity_drawdown_loop position_times_sorted balance_df dates (current_equity', dd'))"

text \<open>Lines 649 to 690: the recurrence from \<^verbatim>\<open>initial_equity = 10000\<close>; the result
  is \<^verbatim>\<open>final_equity\<close> with the final \<^verbatim>\<open>max_equity\<close> and \<^verbatim>\<open>max_drawdown\<close>.\<close>

definition initial_equity :: real where
  "initial_equity = 10000"

definition equity_drawdown ::
  "closed_position list \<Rightarrow> balance_row list \<Rightarrow> real \<times> (np_error + drawdown_state)" where
  "equity_drawdown position_times balance_df =
     (let position_times_sorted = sort_key cp_close_time position_times
      in equity_drawdown_loop position_times_sorted balance_df
           (all_dates position_times_sorted balance_df)
           (initial_equity, Inr \<lparr>max_equity = initial_equity, max_drawdown = 0\<rparr>))"

section \<open>save_daily_trades\<close>

text \<open>A row of \<^verbatim>\<open>equity_data\<close> (lines 301 to 307).\<close>

record equity_row =
  er_date :: int
  er_trading_profit :: real
  er_balance_change :: real
  er_equity :: real
  er_return_pct :: real

text \<open>The loop of lines 284 to 307. The divisor of the return percentage is the
  constant \<^verbatim>\<open>initial_equity = 10000\<close>.\<close>

fun equity_rows_loop ::
  "closed_position list \<Rightarrow> balance_row list \<Rightarrow> int list \<Rightarrow> real \<Rightarrow> equity_row list" where
  "equity_rows_loop position_times_sorted balance_df [] current_equity = []"
| "equity_rows_loop position_times_sorted balance_df (date # dates) current_equity =
     (let daily_trades = filter (\<lambda>p. cp_date p = date) position_times_sorted;
          daily_balance =
            (if balance_df \<noteq> [] then filter (\<lambda>b. b_date b = date) balance_df else []);
          daily_balance_change =
            (if daily_balance \<noteq> [] then sum_list (map b_profit daily_balance) else 0);
          daily_trading_profit =
            (if daily_trades \<noteq> [] then sum_list (map cp_total_profit daily_trades) else 0);
          current_equity' = current_equity + (daily_balance_change + daily_trading_profit)
      in \<lparr>er_date = date,
          er_trading_profit = daily_trading_profit,
          er_balance_change = daily_balance_change,
          er_equity = current_equity',
          er_return_pct = (current_equity' / initial_equity - 1) * 100\<rparr>
         # equity_rows_loop position_times_sorted balance_df dates current_equity')"

definition equity_data :: "closed_position list \<Rightarrow> balance_row list \<Rightarrow> equity_row list" where
  "equity_data position_times balance_df =
     (let position_times_sorted = sort_key cp_close_time position_times
      in equity_rows_loop position_times_sorted balance_df
           (all_dates position_times_sorted balance_df) initial_equity)"

section \<open>Win rate and profit/loss ratio\<close>

text \<open>The expressions of lines 729 to 735, which lines 319 to 325 and 372 repeat for
  the groups by date: \<^verbatim>\<open>len(profit_trades) / len(group) * 100 if len(group) > 0 else 0\<close>,
  \<^verbatim>\<open>trades['price_change'].mean() if len(trades) > 0 else 0\<close> and
  \<^verbatim>\<open>avg_profit_points / avg_loss_points if avg_loss_points > 0 else 0\<close>.\<close>

definition profit_trades :: "closed_position list \<Rightarrow> closed_position list" where
  "profit_trades grp = filter (\<lambda>p. cp_is_profit p) grp"

definition loss_trades :: "closed_position list \<Rightarrow> closed_position list" where
  "loss_trades grp = filter (\<lambda>p. \<not> cp_is_profit p) grp"

definition win_rate :: "closed_position list \<Rightarrow> np_error + real" where
  "win_rate grp =
     (if length grp > 0
      then bind_ok (py_div (real (length (profit_trades grp))) (real (length grp)))
             (\<lambda>q. Inr (q * 100))
      else Inr 0)"

definition avg_points :: "closed_position list \<Rightarrow> np_error + real" where
  "avg_points trades =
     (if length trades > 0 then np_mean (map cp_price_change trades) else Inr 0)"

definition ratio_of :: "real \<Rightarrow> real \<Rightarrow> np_error + real" where
  "ratio_of avg_profit_points avg_loss_points =
     (if avg_loss_points > 0 then py_div avg_profit_points avg_loss_points else Inr 0)"

definition profit_loss_ratio :: "closed_position list \<Rightarrow> np_error + real" where
  "profit_loss_ratio grp =
     bind_ok (avg_points (profit_trades grp)) (\<lambda>avg_profit_points.
     bind_ok (avg_points (loss_trades grp)) (\<lambda>avg_loss_points.
       ratio_of avg_profit_points avg_loss_points))"

section \<open>The summaries by date of save_daily_trades\<close>

text \<open>\<^verbatim>\<open>summary_data\<close> (lines 368 to 385) of one date's group, before it is
  rendered; the holding times are left in seconds.\<close>

record day_summary =
  ds_date :: int
  ds_total_trades :: nat
  ds_profit_trades :: nat
  ds_loss_trades :: nat
  ds_win_rate :: real
  ds_profit_loss_ratio :: real
  ds_avg_profit_points :: real
  ds_avg_loss_points :: real
  ds_total_volume :: real
  ds_total_profit :: real
  ds_total_commission :: real
  ds_total_swap :: real
  ds_buy_count :: nat
  ds_sell_count :: nat
  ds_avg_holding_time :: real

definition day_summary_of :: "int \<Rightarrow> closed_position list \<Rightarrow> np_error + day_summary" where
  "day_summary_of date grp =
     bind_ok (avg_points (profit_trades grp)) (\<lambda>avg_profit_points.
     bind_ok (avg_points (loss_trades grp)) (\<lambda>avg_loss_points.
     bind_ok (ratio_of avg_profit_points avg_loss_points) (\<lambda>ratio.
     bind_ok (win_rate grp) (\<lambda>rate.
     bind_ok (np_mean (map (\<lambda>p. real_of_int (cp_holding_time p)) grp)) (\<lambda>avg_holding.
       Inr \<lparr>ds_date = date,
            ds_total_trades = length grp,
            ds_profit_trades = length (profit_trades grp),
            ds_loss_trades = length (loss_trades grp),
            ds_win_rate = rate,
            ds_profit_loss_ratio = ratio,
            ds_avg_profit_points = avg_profit_points,
            ds_avg_loss_points = avg_loss_points,
            ds_total_volume = sum_list (map cp_volume grp),
            ds_total_profit = sum_list (map cp_total_profit grp),
            ds_total_commission = sum_list (map cp_commission grp),
            ds_total_swap = sum_list (map cp_swap grp),
            ds_buy_count = length (filter (\<lambda>p. cp_type p = DEAL_TYPE_BUY) grp),
            ds_sell_count = length (filter (\<lambda>p. cp_type p = DEAL_TYPE_SELL) grp),
            ds_avg_holding_time = avg_holding\<rparr>)))))"

text \<open>The loop of line 313 over \<^verbatim>\<open>position_times.groupby('date')\<close>: the groups in
  ascending order of the date.\<close>

definition day_summaries :: "closed_position list \<Rightarrow> np_error + day_summary list" where
  "day_summaries position_times =
     all_ok (map (\<lambda>date. day_summary_of date (filter (\<lambda>p. cp_date p = date) position_times))
                 (sort (unique (map cp_date position_times))))"

text \<open>What \<^verbatim>\<open>save_daily_trades\<close> computes: the equity rows and the summaries by
  date. Its files, sheets and charts are rendering and are not modelled; its argument
  \<^verbatim>\<open>df\<close> is never read.\<close>

definition save_daily_trades ::
  "closed_position list \<Rightarrow> balance_row list \<Rightarrow> equity_row list \<times> (np_error + day_summary list)" where
  "save_daily_trades position_times balance_df =
     (equity_data position_times balance_df, day_summaries position_times)"

section \<open>The statistics by date and symbol of analyze_trades_by_day\<close>

text \<open>An entry of \<^verbatim>\<open>daily_stats\<close> (lines 707 to 735).\<close>

record daily_stat =
  st_date :: int
  st_symbol :: string
  st_total_volume :: real
  st_max_volume :: real
  st_min_volume :: real
  st_total_profit :: real
  st_pure_profit :: real
  st_commission :: real
  st_swap :: real
  st_avg_holding_time :: real
  st_max_holding_time :: int
  st_min_holding_time :: int
  st_buy_count :: nat
  st_sell_count :: nat
  st_win_rate :: real
  st_avg_profit_points :: real
  st_avg_loss_points :: real
  st_profit_loss_ratio :: real

definition group_stats :: "int \<Rightarrow> string \<Rightarrow> closed_position list \<Rightarrow> np_error + daily_stat" where
  "group_stats date symb grp =
     bind_ok (np_mean (map (\<lambda>p. real_of_int (cp_holding_time p)) grp)) (\<lambda>avg_holding.
     bind_ok (win_rate grp) (\<lambda>rate.
     bind_ok (avg_points (profit_trades grp)) (\<lambda>avg_profit_points.
     bind_ok (avg_points (loss_trades grp)) (\<lambda>avg_loss_points.
     bind_ok (ratio_of avg_profit_points avg_loss_points) (\<lambda>ratio.
       Inr \<lparr>st_date = date,
            st_symbol = symb,
            st_total_volume = sum_list (map cp_volume grp),
            st_max_volume = Max (set (map cp_volume grp)),
            st_min_volume = Min (set (map cp_volume grp)),
            st_total_profit = sum_list (map cp_total_profit grp),
            st_pure_profit = sum_list (map cp_profit grp),
            st_commission = sum_list (map cp_commission grp),
            st_swap = sum_list (map cp_swap grp),
            st_avg_holding_time = avg_holding,
            st_max_holding_time = Max (set (map cp_holding_time grp)),
            st_min_holding_time = Min (set (map cp_holding_time grp)),
            st_buy_count = length (filter (\<lambda>p. cp_type p = DEAL_TYPE_BUY) grp),
            st_sell_count = length (filter (\<lambda>p. cp_type p = DEAL_TYPE_SELL) grp),
            st_win_rate = rate,
            st_avg_profit_points = avg_profit_points,
            st_avg_loss_points = avg_loss_points,
            st_profit_loss_ratio = ratio\<rparr>)))))"

text \<open>The loop of line 705 over \<^verbatim>\<open>position_times.groupby(['date', 'symbol'])\<close>: the
  groups in ascending order of the key.\<close>

definition daily_stats :: "closed_position list \<Rightarrow> np_error + daily_stat list" where
  "daily_stats position_times =
     all_ok (map (\<lambda>(date, symb).
                    group_stats date symb
                      (filter (\<lambda>p. cp_date p = date \<and> cp_symbol p = symb) position_times))
                 (sort (unique (map (\<lambda>p. (cp_date p, cp_symbol p)) position_times))))"

section \<open>analyze_trades_by_day and its callers\<close>

text \<open>\<open>NoValidTrades\<close> is the early return of an empty frame (line 646). Otherwise
  the result holds what the function prints (the final equity with the drawdown state),
  what \<^verbatim>\<open>save_daily_trades\<close> computes, and \<^verbatim>\<open>daily_stats\<close>, from which the
  returned frame is built (with four columns rounded and the holding times formatted).\<close>

datatype analysis =
  NoValidTrades
| Analysed "real \<times> (np_error + drawdown_state)"
           "equity_row list \<times> (np_error + day_summary list)"
           "np_error + daily_stat list"

definition analyze_trades_by_day :: "df_row list \<Rightarrow> balance_row list \<Rightarrow> analysis" where
  "analyze_trades_by_day df balance_df =
     (let position_times = calculate_position_times df
      in if length position_times = 0 then NoValidTrades
         else Analysed (equity_drawdown position_times balance_df)
                (save_daily_trades position_times balance_df)
                (daily_stats position_times))"

text \<open>\<^verbatim>\<open>trades_df, balance_df = get_trades_history()\<close>: unpacking None raises
  TypeError.\<close>

datatype py_exception = TypeError

definition unpack_pair :: "('a \<times> 'b) option \<Rightarrow> py_exception + ('a \<times> 'b)" where
  "unpack_pair v = (case v of None \<Rightarrow> Inl TypeError | Some p \<Rightarrow> Inr p)"

text \<open>\<^verbatim>\<open>str(e)\<close> of the exception.\<close>

definition exception_message :: "py_exception \<Rightarrow> string" where
  "exception_message e =
     (case e of TypeError \<Rightarrow> ''cannot unpack non-iterable NoneType object'')"

text \<open>\<^verbatim>\<open>main\<close> (lines 800 to 823), from whether the terminal connected and the
  results of the history queries. The \<^verbatim>\<open>try\<close> has a \<^verbatim>\<open>finally\<close> and no
  \<^verbatim>\<open>except\<close>, so an exception leaves \<^verbatim>\<open>main\<close>. After the unpacking
  \<^verbatim>\<open>trades_df\<close> is a frame, so \<^verbatim>\<open>trades_df is not None\<close> holds.\<close>

datatype main_outcome = NotConnected | Raised py_exception | Finished analysis

definition main ::
  "bool \<Rightarrow> mt5_deal list option \<Rightarrow> mt5_deal list option \<Rightarrow> mt5_order list option \<Rightarrow>
   main_outcome" where
  "main mt5_connection deals account_history orders =
     (if \<not> mt5_connection then NotConnected
      else
        (case unpack_pair (get_trades_history deals account_history orders) of
           Inl e \<Rightarrow> Raised e
         | Inr (trades_df, balance_df) \<Rightarrow> Finished (analyze_trades_by_day trades_df balance_df)))"

text \<open>\<^verbatim>\<open>run_analysis\<close> of \<^verbatim>\<open>mt5_api_server.py\<close> (lines 26 to 63): the entry it
  stores in \<^verbatim>\<open>tasks[task_id]\<close>. Its \<^verbatim>\<open>except Exception\<close> stores the exception's
  message; the branch that stores \<^verbatim>\<open>No trade data found\<close> needs
  \<^verbatim>\<open>trades_df is None\<close> after the unpacking, which no result of
  \<^verbatim>\<open>get_trades_history\<close> gives.\<close>

datatype task_entry = TaskCompleted | TaskFailed string

definition run_analysis ::
  "bool \<Rightarrow> mt5_deal list option \<Rightarrow> mt5_deal list option \<Rightarrow> mt5_order list option \<Rightarrow>
   task_entry" where
  "run_analysis initialized deals account_history orders =
     (if \<not> initialized then TaskFailed ''Failed to connect to MT5''
      else
        (case unpack_pair (get_trades_history deals account_history orders) of
           Inl e \<Rightarrow> TaskFailed (exception_message e)
         | Inr (trades_df, balance_df) \<Rightarrow>
             (let daily_analysis = analyze_trades_by_day trades_df balance_df
              in TaskCompleted)))"

text \<open>The rows of \<^verbatim>\<open>position_times\<close> that the analysis builds from the feed:
  \<^verbatim>\<open>calculate_position_times\<close> on the frame that \<^verbatim>\<open>get_trades_history\<close>
  returns, and no row when it returns None (the analysis is not run then).\<close>

definition closed_positions ::
  "mt5_deal list option \<Rightarrow> mt5_deal list option \<Rightarrow> mt5_order list option \<Rightarrow>
   closed_position list" where
  "closed_positions deals account_history orders =
     (case get_trades_history deals account_history orders of
        None \<Rightarrow> []
      | Some (df, balance_df) \<Rightarrow> calculate_position_times df)"

section \<open>Notions of the specification\<close>

text \<open>The last non-zero value of a list of values, and zero when the list has none:
  the specification's "last non-zero wins", written from its words.\<close>

definition last_nonzero :: "real list \<Rightarrow> real" where
  "last_nonzero vs =
     (let ws = filter (\<lambda>v. v \<noteq> 0) vs in if ws = [] then 0 else last ws)"

text \<open>The win rate and the profit/loss ratio in the specification's words. The mean
  over the profitable positions is taken as 0 when there are none, as the source
  does; the specification leaves this case open.\<close>

definition mean_price_change :: "closed_position list \<Rightarrow> real" where
  "mean_price_change trades = sum_list (map cp_price_change trades) / real (length trades)"

definition spec_win_rate :: "closed_position list \<Rightarrow> real" where
  "spec_win_rate grp =
     (if grp = [] then 0
      else real (length (filter cp_is_profit grp)) / real (length grp) * 100)"

definition spec_profit_loss_ratio :: "closed_position list \<Rightarrow> real" where
  "spec_profit_loss_ratio grp =
     (let winning = filter cp_is_profit grp;
          losing = filter (\<lambda>p. \<not> cp_is_profit p) grp
      in if losing = [] \<or> mean_price_change losing = 0 then 0
         else (if winning = [] then 0 else mean_price_change winning)
              / mean_price_change losing)"

text \<open>The baseline update and the drawdown of the specification (section 4.4, steps 4
  and 5), with their guards, written from its words.\<close>

definition spec_baseline_update :: "real \<Rightarrow> real \<Rightarrow> real \<Rightarrow> real" where
  "spec_baseline_update max_equity_baseline current_equity daily_balance_delta =
     (if daily_balance_delta \<ge> 0
      then max max_equity_baseline (current_equity - daily_balance_delta)
      else if current_equity - daily_balance_delta = 0 then current_equity
      else max (max_equity_baseline * current_equity / (current_equity - daily_balance_delta))
             current_equity)"

definition spec_drawdown_pct :: "real \<Rightarrow> real \<Rightarrow> real" where
  "spec_drawdown_pct max_equity_baseline current_equity =
     (if max_equity_baseline \<le> 0 then 0
      else (max_equity_baseline - current_equity) / max_equity_baseline * 100)"

section \<open>Example data\<close>

text \<open>A short sell closed in two fills at its stop loss (scenario B of the
  specification, with a partial close before the last one).\<close>

definition ex_open :: df_row where
  "ex_open = \<lparr>time = 100, dtype = DEAL_TYPE_SELL, entry = DEAL_ENTRY_IN, position_id = 7,
     volume = 0.5, price = 1.2, commission = -1, swap = 0, profit = 0,
     symbol = ''EURUSD'', sl = Some 1.21, tp = Some 0, time_gmt = 100\<rparr>"

definition ex_partial :: df_row where
  "ex_partial = \<lparr>time = 200, dtype = DEAL_TYPE_BUY, entry = DEAL_ENTRY_OUT, position_id = 7,
     volume = 0.2, price = 1.205, commission = -1, swap = -1, profit = -10,
     symbol = ''EURUSD'', sl = Some 1.21, tp = Some 0, time_gmt = 200\<rparr>"

definition ex_close :: df_row where
  "ex_close = \<lparr>time = 90000, dtype = DEAL_TYPE_BUY, entry = DEAL_ENTRY_OUT, position_id = 7,
     volume = 0.3, price = 1.2105, commission = -1, swap = -1, profit = -30,
     symbol = ''EURUSD'', sl = Some 1.21, tp = Some 0, time_gmt = 90000\<rparr>"

definition ex_df :: "df_row list" where
  "ex_df = [ex_open, ex_partial, ex_close]"

text \<open>A position of two deals, opened as a buy at 1.2 and closed at 1.205 (scenario A
  of the specification), with the given \<open>sl\<close> and \<open>tp\<close> columns.\<close>

definition ex_pair :: "real option \<Rightarrow> real option \<Rightarrow> df_row list" where
  "ex_pair s t =
     [ex_open\<lparr>dtype := DEAL_TYPE_BUY, position_id := 8, sl := s, tp := t\<rparr>,
      ex_close\<lparr>dtype := DEAL_TYPE_SELL, position_id := 8, price := 1.205, sl := s, tp := t\<rparr>]"

text \<open>A closing deal of position 7 dated before its opening deal.\<close>

definition ex_early_out :: df_row where
  "ex_early_out = ex_partial\<lparr>time := 50, time_gmt := 50\<rparr>"

text \<open>Deals of the feed: \<open>ex_deal pid e t pr\<close> is a deal of position \<open>pid\<close> with
  entry \<open>e\<close>, time \<open>t\<close> and profit \<open>pr\<close>; \<open>ex_balance t amount\<close> is a balance
  operation (a deposit, or a withdrawal when the amount is negative).\<close>

definition ex_deal :: "int \<Rightarrow> deal_entry \<Rightarrow> int \<Rightarrow> real \<Rightarrow> mt5_deal" where
  "ex_deal pid e t pr =
     \<lparr>d_time = t, d_type = (if e = DEAL_ENTRY_IN then DEAL_TYPE_BUY else DEAL_TYPE_SELL),
      d_entry = e, d_position_id = pid, d_volume = 0.1, d_price = 1.2,
      d_commission = 0, d_swap = 0, d_profit = pr, d_symbol = ''EURUSD''\<rparr>"

definition ex_balance :: "int \<Rightarrow> real \<Rightarrow> mt5_deal" where
  "ex_balance t amount =
     \<lparr>d_time = t, d_type = DEAL_TYPE_BALANCE, d_entry = DEAL_ENTRY_IN, d_position_id = 0,
      d_volume = 0, d_price = 0, d_commission = 0, d_swap = 0, d_profit = amount,
      d_symbol = []\<rparr>"

text \<open>A feed with a completed position 7, a single deal of position 9 and two opening
  deals of position 10.\<close>

definition ex_deals :: "mt5_deal list" where
  "ex_deals =
     [ex_deal 7 DEAL_ENTRY_IN 100 0, ex_deal 9 DEAL_ENTRY_IN 150 0,
      ex_deal 10 DEAL_ENTRY_IN 160 0, ex_deal 7 DEAL_ENTRY_OUT 200 25,
      ex_deal 10 DEAL_ENTRY_IN 300 0]"


text \<open>Two positions closed on the same day in the same symbol: position 1 with a
  profit and a price change of 0.02, position 2 with a loss and a price change of
  0.01.\<close>

definition ex_win_loss :: "df_row list" where
  "ex_win_loss =
     [ex_open\<lparr>position_id := 1\<rparr>,
      ex_close\<lparr>position_id := 1, time := 200, time_gmt := 200, price := 1.18, profit := 50\<rparr>,
      ex_open\<lparr>position_id := 2\<rparr>,
      ex_close\<lparr>position_id := 2, time := 300, time_gmt := 300, price := 1.21, profit := -20\<rparr>]"

text \<open>A deposit of 500 on day 0.\<close>

definition ex_balance_df :: "balance_row list" where
  "ex_balance_df = [\<lparr>b_date = 0, b_profit = 500\<rparr>]"

text \<open>A feed with two withdrawals: 6000 on day 0, when position 3 closes with a loss
  of 5000, and 50 on day 1, when position 4 closes with a profit of 1000. The same
  deals answer the query for the deals and the query for the account history; the
  frame keeps all of them, and the balance rows are the two withdrawals.\<close>

definition ex_withdrawal_feed :: "mt5_deal list" where
  "ex_withdrawal_feed =
     [ex_deal 3 DEAL_ENTRY_IN 100 0, ex_balance 150 (-6000),
      ex_deal 3 DEAL_ENTRY_OUT 200 (-5000), ex_deal 4 DEAL_ENTRY_IN 300 0,
      ex_deal 4 DEAL_ENTRY_OUT 90000 1000, ex_balance 90100 (-50)]"

definition ex_withdrawal_df :: "df_row list" where
  "ex_withdrawal_df = map (attach_sl_tp Map.empty) ex_withdrawal_feed"

definition ex_withdrawal_balance :: "balance_row list" where
  "ex_withdrawal_balance = [\<lparr>b_date = 0, b_profit = -6000\<rparr>, \<lparr>b_date = 1, b_profit = -50\<rparr>]"

section \<open>Facts about the helpers\<close>

lemma set_unique [simp]: "set (unique xs) = set xs"
  by (simp add: unique_def)

lemma distinct_unique [simp]: "distinct (unique xs)"
  by (simp add: unique_def)

section \<open>Facts about calculate_position_times\<close>

lemma calculate_position_times_iff:
  "p \<in> set (calculate_position_times df) \<longleftrightarrow>
     (\<exists>r \<in> set df. position_row df (position_id r) = Some p)"
  by (auto simp: calculate_position_times_def List.map_filter_def image_iff)

lemma position_row_Some:
  "position_row df pid = Some p \<longleftrightarrow>
     open_trades df pid \<noteq> [] \<and> close_trades df pid \<noteq> [] \<and> p = build_position df pid"
  by (auto simp: position_row_def)

lemma build_position_id [simp]: "cp_position_id (build_position df pid) = pid"
  by (simp add: build_position_def Let_def case_prod_beta)

lemma build_position_sums:
  "cp_profit (build_position df pid) = sum_list (map profit (position_trades df pid))"
  "cp_commission (build_position df pid) = sum_list (map commission (position_trades df pid))"
  "cp_swap (build_position df pid) = sum_list (map swap (position_trades df pid))"
  "cp_total_profit (build_position df pid) =
     cp_profit (build_position df pid) + cp_commission (build_position df pid)
       + cp_swap (build_position df pid)"
  by (simp_all add: build_position_def Let_def case_prod_beta)

lemma build_position_times:
  "cp_open_time (build_position df pid) = Min (set (map time_gmt (position_trades df pid)))"
  "cp_close_time (build_position df pid) = Max (set (map time_gmt (position_trades df pid)))"
  "cp_holding_time (build_position df pid) =
     cp_close_time (build_position df pid) - cp_open_time (build_position df pid)"
  "cp_date (build_position df pid) = date_of (cp_close_time (build_position df pid))"
  by (simp_all add: build_position_def Let_def case_prod_beta)

lemma build_position_close:
  "cp_close_price (build_position df pid) = price (last (close_trades df pid))"
  "cp_close_type (build_position df pid) = fst (classify_close (last (close_trades df pid)))"
  "cp_sl_tp_price (build_position df pid) =
     fst (snd (classify_close (last (close_trades df pid))))"
  "cp_slippage (build_position df pid) = snd (snd (classify_close (last (close_trades df pid))))"
  "cp_price_change (build_position df pid) =
     \<bar>price (last (close_trades df pid)) - price (hd (open_trades df pid))\<bar>"
  "cp_is_profit (build_position df pid) \<longleftrightarrow> cp_profit (build_position df pid) > 0"
  by (simp_all add: build_position_def Let_def case_prod_beta)

lemma sum_list_position_trades:
  fixes f :: "df_row \<Rightarrow> real"
  shows "sum_list (map f (position_trades df pid)) =
         sum_list (map f (filter (\<lambda>r. position_id r = pid) df))"
proof -
  have "mset (map f (position_trades df pid)) =
        mset (map f (filter (\<lambda>r. position_id r = pid) df))"
    by (simp add: position_trades_def)
  then have "sum_mset (mset (map f (position_trades df pid))) =
             sum_mset (mset (map f (filter (\<lambda>r. position_id r = pid) df)))"
    by (rule arg_cong)
  then show ?thesis by (simp only: sum_mset_sum_list)
qed

lemma set_position_trades [simp]:
  "set (position_trades df pid) = {r \<in> set df. position_id r = pid}"
  by (auto simp: position_trades_def)

lemma build_position_mem:
  assumes "r \<in> set df" "open_trades df (position_id r) \<noteq> []"
    "close_trades df (position_id r) \<noteq> []"
  shows "build_position df (position_id r) \<in> set (calculate_position_times df)"
  using assms unfolding calculate_position_times_iff position_row_Some by blast

lemma position_trades_ex_df: "position_trades ex_df 7 = [ex_open, ex_partial, ex_close]"
  by (simp add: position_trades_def ex_df_def ex_open_def ex_partial_def ex_close_def)

lemma open_trades_ex_df: "open_trades ex_df 7 = [ex_open]"
  by (simp add: open_trades_def position_trades_ex_df)
     (simp add: ex_open_def ex_partial_def ex_close_def)

lemma close_trades_ex_df: "close_trades ex_df 7 = [ex_partial, ex_close]"
  by (simp add: close_trades_def position_trades_ex_df)
     (simp add: ex_open_def ex_partial_def ex_close_def)

lemma ex_position_mem: "build_position ex_df 7 \<in> set (calculate_position_times ex_df)"
proof -
  have "ex_open \<in> set ex_df" by (simp add: ex_df_def)
  moreover have "position_id ex_open = 7" by (simp add: ex_open_def)
  ultimately show ?thesis
    using build_position_mem [of ex_open ex_df]
    by (simp add: open_trades_ex_df close_trades_ex_df)
qed

lemma classify_close_cases:
  "(present_nonzero (sl ct) \<longrightarrow>
        classify_close ct = (CT_sl, sl ct, \<bar>price ct - the (sl ct)\<bar>))
   \<and> (\<not> present_nonzero (sl ct) \<and> present_nonzero (tp ct) \<longrightarrow>
        classify_close ct = (CT_tp, tp ct, \<bar>price ct - the (tp ct)\<bar>))
   \<and> (\<not> present_nonzero (sl ct) \<and> \<not> present_nonzero (tp ct) \<longrightarrow>
        classify_close ct = (CT_market, None, 0))"
  by (auto simp: classify_close_def present_nonzero_def split: option.splits)

lemma classify_close_slippage:
  "0 \<le> snd (snd (classify_close ct))"
  "fst (classify_close ct) = CT_market \<Longrightarrow> snd (snd (classify_close ct)) = 0"
  by (auto simp: classify_close_def)

lemma last_close_trades:
  assumes "close_trades df pid \<noteq> []"
  shows "last (close_trades df pid) \<in> set df"
    "position_id (last (close_trades df pid)) = pid"
    "entry (last (close_trades df pid)) = DEAL_ENTRY_OUT"
proof -
  have "last (close_trades df pid) \<in> set (close_trades df pid)"
    using assms by (rule last_in_set)
  then show "last (close_trades df pid) \<in> set df"
    "position_id (last (close_trades df pid)) = pid"
    "entry (last (close_trades df pid)) = DEAL_ENTRY_OUT"
    by (simp_all add: close_trades_def)
qed

lemma open_trades_ex_pair:
  "open_trades (ex_pair s t) 8 =
     [ex_open\<lparr>dtype := DEAL_TYPE_BUY, position_id := 8, sl := s, tp := t\<rparr>]"
  by (simp add: open_trades_def position_trades_def ex_pair_def ex_open_def ex_close_def)

lemma close_trades_ex_pair:
  "close_trades (ex_pair s t) 8 =
     [ex_close\<lparr>dtype := DEAL_TYPE_SELL, position_id := 8, price := 1.205, sl := s, tp := t\<rparr>]"
  by (simp add: close_trades_def position_trades_def ex_pair_def ex_open_def ex_close_def)

lemma ex_pair_mem:
  "build_position (ex_pair s t) 8 \<in> set (calculate_position_times (ex_pair s t))"
proof -
  let ?r = "ex_open\<lparr>dtype := DEAL_TYPE_BUY, position_id := 8, sl := s, tp := t\<rparr>"
  have "?r \<in> set (ex_pair s t)" by (simp add: ex_pair_def)
  moreover have "position_id ?r = 8" by simp
  ultimately show ?thesis
    using build_position_mem [of ?r "ex_pair s t"]
    by (simp add: open_trades_ex_pair close_trades_ex_pair)
qed

section \<open>Facts about get_trades_history\<close>

lemma filter_attach_sl_tp:
  "filter (\<lambda>r. position_id r = pid) (map (attach_sl_tp od) ds) =
   map (attach_sl_tp od) (filter (\<lambda>d. d_position_id d = pid) ds)"
  by (simp add: filter_map o_def attach_sl_tp_def)

lemma attach_fields [simp]:
  "position_id (attach_sl_tp od d) = d_position_id d"
  "entry (attach_sl_tp od d) = d_entry d"
  by (simp_all add: attach_sl_tp_def)

lemma completed_positions_iff:
  "pid \<in> set (completed_positions df) \<longleftrightarrow>
     length (filter (\<lambda>r. position_id r = pid) df) \<ge> 2"
proof -
  have "pid \<in> position_id ` set df" if "length (filter (\<lambda>r. position_id r = pid) df) \<ge> 2"
  proof -
    from that have "filter (\<lambda>r. position_id r = pid) df \<noteq> []" by auto
    then obtain r where "r \<in> set df" "position_id r = pid"
      by (auto simp: filter_empty_conv)
    then show ?thesis by auto
  qed
  then show ?thesis by (auto simp: completed_positions_def)
qed

lemma filter_completed:
  "filter (\<lambda>r. position_id r = pid)
     (filter (\<lambda>r. position_id r \<in> set (completed_positions df)) df) =
   (if length (filter (\<lambda>r. position_id r = pid) df) \<ge> 2
    then filter (\<lambda>r. position_id r = pid) df else [])"
proof -
  have "filter (\<lambda>r. position_id r = pid)
          (filter (\<lambda>r. position_id r \<in> set (completed_positions df)) df) =
        filter (\<lambda>r. position_id r = pid \<and> pid \<in> set (completed_positions df)) df"
    by (auto simp: filter_filter intro: filter_cong)
  then show ?thesis by (simp add: completed_positions_iff)
qed

lemma position_trades_completed:
  "position_trades (filter (\<lambda>r. position_id r \<in> set (completed_positions df)) df) pid =
   (if length (filter (\<lambda>r. position_id r = pid) df) \<ge> 2 then position_trades df pid else [])"
  unfolding position_trades_def filter_completed by simp

lemma filter_map_filter_distinct:
  assumes "distinct xs" "\<And>x p. f x = Some p \<Longrightarrow> g p = x"
  shows "filter (\<lambda>p. g p = k) (List.map_filter f xs) =
         (if k \<in> set xs then (case f k of None \<Rightarrow> [] | Some p \<Rightarrow> [p]) else [])"
  using assms(1)
proof (induction xs)
  case Nil
  then show ?case by (simp add: List.map_filter_simps)
next
  case (Cons x xs)
  show ?case
  proof (cases "f x")
    case None
    with Cons show ?thesis by (auto simp: List.map_filter_simps)
  next
    case (Some p)
    with Cons assms(2) [OF Some] show ?thesis
      by (auto simp: List.map_filter_simps split: option.splits)
  qed
qed

lemma filter_calculate_position_times:
  "filter (\<lambda>p. cp_position_id p = pid) (calculate_position_times df) =
     (if pid \<in> position_id ` set df
      then (case position_row df pid of None \<Rightarrow> [] | Some p \<Rightarrow> [p]) else [])"
proof -
  have "filter (\<lambda>p. cp_position_id p = pid)
          (List.map_filter (position_row df) (unique (map position_id df))) =
        (if pid \<in> set (unique (map position_id df))
         then (case position_row df pid of None \<Rightarrow> [] | Some p \<Rightarrow> [p]) else [])"
    by (rule filter_map_filter_distinct) (simp_all add: position_row_Some)
  then show ?thesis by (simp add: calculate_position_times_def)
qed

lemma open_trades_nonempty_iff:
  "open_trades df pid \<noteq> [] \<longleftrightarrow>
     (\<exists>r \<in> set df. position_id r = pid \<and> entry r = DEAL_ENTRY_IN)"
  by (auto simp: open_trades_def filter_empty_conv)

lemma close_trades_nonempty_iff:
  "close_trades df pid \<noteq> [] \<longleftrightarrow>
     (\<exists>r \<in> set df. position_id r = pid \<and> entry r = DEAL_ENTRY_OUT)"
  by (auto simp: close_trades_def filter_empty_conv)

lemma position_row_completed:
  "position_row (filter (\<lambda>r. position_id r \<in> set (completed_positions df)) df) pid \<noteq> None
   \<longleftrightarrow> length (filter (\<lambda>r. position_id r = pid) df) \<ge> 2
       \<and> (\<exists>r \<in> set df. position_id r = pid \<and> entry r = DEAL_ENTRY_IN)
       \<and> (\<exists>r \<in> set df. position_id r = pid \<and> entry r = DEAL_ENTRY_OUT)"
proof -
  let ?df' = "filter (\<lambda>r. position_id r \<in> set (completed_positions df)) df"
  have o: "open_trades ?df' pid =
      (if length (filter (\<lambda>r. position_id r = pid) df) \<ge> 2 then open_trades df pid else [])"
    by (simp add: open_trades_def position_trades_completed)
  have c: "close_trades ?df' pid =
      (if length (filter (\<lambda>r. position_id r = pid) df) \<ge> 2 then close_trades df pid else [])"
    by (simp add: close_trades_def position_trades_completed)
  have "position_row ?df' pid \<noteq> None \<longleftrightarrow>
          open_trades ?df' pid \<noteq> [] \<and> close_trades ?df' pid \<noteq> []"
    by (simp add: position_row_def)
  then show ?thesis
    unfolding o c using open_trades_nonempty_iff [of df pid] close_trades_nonempty_iff [of df pid]
    by (simp split: if_splits)
qed

lemma last_nonzero_single [simp]: "last_nonzero [v] = v"
  by (simp add: last_nonzero_def)






section \<open>Facts about the aggregates\<close>

lemma py_div_ok: "y \<noteq> 0 \<Longrightarrow> py_div x y = Inr (x / y)"
  by (simp add: py_div_def)

lemma bind_ok_Inr [simp]: "bind_ok (Inr v) f = f v"
  by (simp add: bind_ok_def)

lemma bind_ok_Inl [simp]: "bind_ok (Inl e) f = Inl e"
  by (simp add: bind_ok_def)

lemma win_rate_value:
  "win_rate grp =
     Inr (if grp = [] then 0 else real (length (profit_trades grp)) / real (length grp) * 100)"
  by (simp add: win_rate_def py_div_def)

lemma avg_points_value:
  "avg_points trades = Inr (if trades = [] then 0 else mean_price_change trades)"
  by (simp add: avg_points_def np_mean_def py_div_def mean_price_change_def)

lemma mean_price_change_nonneg:
  assumes "\<forall>p \<in> set trades. 0 \<le> cp_price_change p"
  shows "0 \<le> mean_price_change trades"
proof -
  have "0 \<le> sum_list (map cp_price_change trades)"
    using assms by (intro sum_list_nonneg) auto
  then show ?thesis by (simp add: mean_price_change_def)
qed

lemma profit_loss_ratio_value:
  "profit_loss_ratio grp =
     Inr (if loss_trades grp = [] \<or> mean_price_change (loss_trades grp) \<le> 0 then 0
          else (if profit_trades grp = [] then 0 else mean_price_change (profit_trades grp))
               / mean_price_change (loss_trades grp))"
  by (simp add: profit_loss_ratio_def avg_points_value ratio_of_def py_div_def)


lemma win_rate_spec: "win_rate grp = Inr (spec_win_rate grp)"
  by (simp add: win_rate_value spec_win_rate_def profit_trades_def)

lemma spec_win_rate_bounds: "0 \<le> spec_win_rate grp" "spec_win_rate grp \<le> 100"
proof -
  show "0 \<le> spec_win_rate grp" by (simp add: spec_win_rate_def)
  define q where "q = real (length (filter cp_is_profit grp)) / real (length grp)"
  have "real (length (filter cp_is_profit grp)) \<le> real (length grp)" by simp
  then have "q \<le> 1" if "grp \<noteq> []"
    unfolding q_def using that by (simp add: divide_le_eq_1)
  then have "q * 100 \<le> 100" if "grp \<noteq> []"
    using that by simp
  then show "spec_win_rate grp \<le> 100"
    unfolding spec_win_rate_def q_def [symmetric] by simp
qed

lemma profit_loss_ratio_spec:
  assumes "\<forall>p \<in> set grp. 0 \<le> cp_price_change p"
  shows "profit_loss_ratio grp = Inr (spec_profit_loss_ratio grp)"
    and "0 \<le> spec_profit_loss_ratio grp"
proof -
  have l: "0 \<le> mean_price_change (filter (\<lambda>p. \<not> cp_is_profit p) grp)"
    using assms by (intro mean_price_change_nonneg) auto
  have w: "0 \<le> mean_price_change (filter cp_is_profit grp)"
    using assms by (intro mean_price_change_nonneg) auto
  from l have "mean_price_change (filter (\<lambda>p. \<not> cp_is_profit p) grp) \<le> 0 \<longleftrightarrow>
               mean_price_change (filter (\<lambda>p. \<not> cp_is_profit p) grp) = 0"
    by linarith
  then show "profit_loss_ratio grp = Inr (spec_profit_loss_ratio grp)"
    by (simp add: profit_loss_ratio_value spec_profit_loss_ratio_def Let_def
          profit_trades_def loss_trades_def)
  show "0 \<le> spec_profit_loss_ratio grp"
    using l w by (simp add: spec_profit_loss_ratio_def Let_def)
qed

lemma price_change_nonneg:
  "p \<in> set (calculate_position_times df) \<Longrightarrow> 0 \<le> cp_price_change p"
  unfolding calculate_position_times_iff position_row_Some
  by (auto simp: build_position_close)

lemma np_mean_ok: "xs \<noteq> [] \<Longrightarrow> np_mean xs = Inr (sum_list xs / real (length xs))"
  by (simp add: np_mean_def py_div_def)

lemma group_stats_ok:
  assumes "grp \<noteq> []"
  shows "\<exists>st. group_stats date symb grp = Inr st \<and> st_date st = date \<and> st_symbol st = symb
     \<and> win_rate grp = Inr (st_win_rate st)
     \<and> profit_loss_ratio grp = Inr (st_profit_loss_ratio st)"
proof -
  obtain a b where a: "avg_points (profit_trades grp) = Inr a"
    and b: "avg_points (loss_trades grp) = Inr b"
    by (simp add: avg_points_value)
  obtain r where r: "ratio_of a b = Inr r"
    by (cases "b > 0") (simp_all add: ratio_of_def py_div_def)
  have m: "np_mean (map (\<lambda>p. real_of_int (cp_holding_time p)) grp) =
      Inr (sum_list (map (\<lambda>p. real_of_int (cp_holding_time p)) grp) / real (length grp))"
    using assms by (simp add: np_mean_ok)
  show ?thesis
    by (simp add: group_stats_def m win_rate_value a b r profit_loss_ratio_def)
qed

lemma day_summary_of_ok:
  assumes "grp \<noteq> []"
  shows "\<exists>s. day_summary_of date grp = Inr s \<and> ds_date s = date
     \<and> win_rate grp = Inr (ds_win_rate s)
     \<and> profit_loss_ratio grp = Inr (ds_profit_loss_ratio s)"
proof -
  obtain a b where a: "avg_points (profit_trades grp) = Inr a"
    and b: "avg_points (loss_trades grp) = Inr b"
    by (simp add: avg_points_value)
  obtain r where r: "ratio_of a b = Inr r"
    by (cases "b > 0") (simp_all add: ratio_of_def py_div_def)
  have m: "np_mean (map (\<lambda>p. real_of_int (cp_holding_time p)) grp) =
      Inr (sum_list (map (\<lambda>p. real_of_int (cp_holding_time p)) grp) / real (length grp))"
    using assms by (simp add: np_mean_ok)
  show ?thesis
    by (simp add: day_summary_of_def m win_rate_value a b r profit_loss_ratio_def)
qed

lemma all_ok_map:
  assumes "\<forall>x \<in> set xs. \<exists>y. f x = Inr y \<and> P x y"
  shows "\<exists>ys. all_ok (map f xs) = Inr ys \<and> (\<forall>y \<in> set ys. \<exists>x \<in> set xs. P x y)"
  using assms
proof (induction xs)
  case Nil
  then show ?case by simp
next
  case (Cons x xs)
  then obtain y where y: "f x = Inr y" "P x y" by auto
  from Cons obtain ys where ys: "all_ok (map f xs) = Inr ys"
    "\<forall>y \<in> set ys. \<exists>x \<in> set xs. P x y" by auto
  have "all_ok (map f (x # xs)) = Inr (y # ys)" by (simp add: y ys)
  moreover have "\<forall>z \<in> set (y # ys). \<exists>x' \<in> set (x # xs). P x' z"
    using y ys by auto
  ultimately show ?case by blast
qed


lemma daily_stats_ok:
  "\<exists>stats. daily_stats pts = Inr stats \<and>
     (\<forall>st \<in> set stats.
        win_rate (filter (\<lambda>p. cp_date p = st_date st \<and> cp_symbol p = st_symbol st) pts)
          = Inr (st_win_rate st)
      \<and> profit_loss_ratio
          (filter (\<lambda>p. cp_date p = st_date st \<and> cp_symbol p = st_symbol st) pts)
          = Inr (st_profit_loss_ratio st))"
proof -
  let ?keys = "sort (unique (map (\<lambda>p. (cp_date p, cp_symbol p)) pts))"
  let ?grp = "\<lambda>date symb. filter (\<lambda>p. cp_date p = date \<and> cp_symbol p = symb) pts"
  let ?f = "\<lambda>(date, symb). group_stats date symb (?grp date symb)"
  let ?P = "\<lambda>k st. st_date st = fst k \<and> st_symbol st = snd k
     \<and> win_rate (?grp (fst k) (snd k)) = Inr (st_win_rate st)
     \<and> profit_loss_ratio (?grp (fst k) (snd k)) = Inr (st_profit_loss_ratio st)"
  have "\<forall>k \<in> set ?keys. \<exists>st. ?f k = Inr st \<and> ?P k st"
  proof
    fix k assume "k \<in> set ?keys"
    then obtain p where "p \<in> set pts" "k = (cp_date p, cp_symbol p)" by auto
    then have "?grp (fst k) (snd k) \<noteq> []" by (auto simp: filter_empty_conv)
    from group_stats_ok [OF this, of "fst k" "snd k"]
    show "\<exists>st. ?f k = Inr st \<and> ?P k st" by (simp add: case_prod_beta)
  qed
  from all_ok_map [of ?keys ?f ?P, OF this]
  obtain stats where "all_ok (map ?f ?keys) = Inr stats"
    and "\<forall>st \<in> set stats. \<exists>k \<in> set ?keys. ?P k st" by blast
  then show ?thesis unfolding daily_stats_def by (intro exI [of _ stats]) auto
qed

lemma day_summaries_ok:
  "\<exists>rows. day_summaries pts = Inr rows \<and>
     (\<forall>s \<in> set rows.
        win_rate (filter (\<lambda>p. cp_date p = ds_date s) pts) = Inr (ds_win_rate s)
      \<and> profit_loss_ratio (filter (\<lambda>p. cp_date p = ds_date s) pts)
          = Inr (ds_profit_loss_ratio s))"
proof -
  let ?keys = "sort (unique (map cp_date pts))"
  let ?grp = "\<lambda>date. filter (\<lambda>p. cp_date p = date) pts"
  let ?f = "\<lambda>date. day_summary_of date (?grp date)"
  let ?P = "\<lambda>k s. ds_date s = k
     \<and> win_rate (?grp k) = Inr (ds_win_rate s)
     \<and> profit_loss_ratio (?grp k) = Inr (ds_profit_loss_ratio s)"
  have "\<forall>k \<in> set ?keys. \<exists>s. ?f k = Inr s \<and> ?P k s"
  proof
    fix k assume "k \<in> set ?keys"
    then obtain p where "p \<in> set pts" "k = cp_date p" by auto
    then have "?grp k \<noteq> []" by (auto simp: filter_empty_conv)
    from day_summary_of_ok [OF this, of k]
    show "\<exists>s. ?f k = Inr s \<and> ?P k s" by simp
  qed
  from all_ok_map [of ?keys ?f ?P, OF this]
  obtain rows where "all_ok (map ?f ?keys) = Inr rows"
    and "\<forall>s \<in> set rows. \<exists>k \<in> set ?keys. ?P k s" by blast
  then show ?thesis unfolding day_summaries_def by (intro exI [of _ rows]) auto
qed

lemma position_trades_ex_win_loss:
  "position_trades ex_win_loss 1 =
     [ex_open\<lparr>position_id := 1\<rparr>,
      ex_close\<lparr>position_id := 1, time := 200, time_gmt := 200, price := 1.18, profit := 50\<rparr>]"
  "position_trades ex_win_loss 2 =
     [ex_open\<lparr>position_id := 2\<rparr>,
      ex_close\<lparr>position_id := 2, time := 300, time_gmt := 300, price := 1.21, profit := -20\<rparr>]"
  by (simp_all add: position_trades_def ex_win_loss_def ex_open_def ex_close_def)

lemma open_close_trades_ex_win_loss:
  "open_trades ex_win_loss 1 = [ex_open\<lparr>position_id := 1\<rparr>]"
  "close_trades ex_win_loss 1 =
     [ex_close\<lparr>position_id := 1, time := 200, time_gmt := 200, price := 1.18, profit := 50\<rparr>]"
  "open_trades ex_win_loss 2 = [ex_open\<lparr>position_id := 2\<rparr>]"
  "close_trades ex_win_loss 2 =
     [ex_close\<lparr>position_id := 2, time := 300, time_gmt := 300, price := 1.21, profit := -20\<rparr>]"
  by (simp_all add: open_trades_def close_trades_def position_trades_ex_win_loss)
     (simp_all add: ex_open_def ex_close_def)

lemma calculate_position_times_ex_win_loss:
  "calculate_position_times ex_win_loss =
     [build_position ex_win_loss 1, build_position ex_win_loss 2]"
proof -
  have "unique (map position_id ex_win_loss) = [1, 2]"
    by (simp add: unique_def ex_win_loss_def ex_open_def ex_close_def)
  then show ?thesis
    by (simp add: calculate_position_times_def position_row_def
          open_close_trades_ex_win_loss)
qed

lemma ex_win_loss_fields:
  "cp_is_profit (build_position ex_win_loss 1)"
  "\<not> cp_is_profit (build_position ex_win_loss 2)"
  "cp_price_change (build_position ex_win_loss 1) = 0.02"
  "cp_price_change (build_position ex_win_loss 2) = 0.01"
  by (simp_all add: build_position_close build_position_sums position_trades_ex_win_loss
        open_close_trades_ex_win_loss)
     (simp_all add: ex_open_def ex_close_def)

section \<open>Facts about the equity loops\<close>

lemma equity_rows_loop_length [simp]:
  "length (equity_rows_loop pts bal ds e) = length ds"
  by (induction ds arbitrary: e) (simp_all add: Let_def)

lemma equity_rows_loop_dates:
  "map er_date (equity_rows_loop pts bal ds e) = ds"
  by (induction ds arbitrary: e) (simp_all add: Let_def)

lemma equity_rows_loop_nth:
  "k < length ds \<Longrightarrow>
     er_equity (equity_rows_loop pts bal ds e ! k) =
     fst (equity_drawdown_loop pts bal (take (Suc k) ds) (e, dd))"
proof (induction ds arbitrary: e dd k)
  case Nil
  then show ?case by simp
next
  case (Cons d ds)
  show ?case
  proof (cases k)
    case 0
    then show ?thesis by (simp add: Let_def)
  next
    case (Suc j)
    with Cons.prems have "j < length ds" by simp
    from Cons.IH [OF this] show ?thesis
      unfolding Suc by (simp add: Let_def)
  qed
qed

lemma equity_drawdown_loop_final:
  "fst (equity_drawdown_loop pts bal ds (e, dd)) =
     last (e # map er_equity (equity_rows_loop pts bal ds e))"
proof (induction ds arbitrary: e dd)
  case Nil
  then show ?case by simp
next
  case (Cons d ds)
  show ?case by (simp add: Let_def Cons.IH)
qed

lemma all_dates_props:
  "sorted (all_dates pts bal)" "distinct (all_dates pts bal)"
  "set (all_dates pts bal) = cp_date ` set pts \<union> b_date ` set bal"
  by (auto simp: all_dates_def)

lemma calculate_position_times_ex_df:
  "calculate_position_times ex_df = [build_position ex_df 7]"
proof -
  have "unique (map position_id ex_df) = [7]"
    by (simp add: unique_def ex_df_def ex_open_def ex_partial_def ex_close_def)
  then show ?thesis
    by (simp add: calculate_position_times_def position_row_def
          open_trades_ex_df close_trades_ex_df)
qed

lemma ex_df_fields:
  "cp_date (build_position ex_df 7) = 1"
  "cp_total_profit (build_position ex_df 7) = -45"
  by (simp_all add: build_position_times build_position_sums position_trades_ex_df date_of_def)
     (simp_all add: ex_open_def ex_partial_def ex_close_def)

lemma all_dates_ex:
  "all_dates (sort_key cp_close_time (calculate_position_times ex_df)) ex_balance_df = [0, 1]"
  by (simp add: all_dates_def calculate_position_times_ex_df ex_df_fields ex_balance_df_def
        unique_def)

section \<open>Facts about the drawdown recurrence\<close>

lemma ex_withdrawal_history:
  "get_trades_history (Some ex_withdrawal_feed) (Some ex_withdrawal_feed) None =
     Some (ex_withdrawal_df, ex_withdrawal_balance)"
proof -
  have c: "\<And>pid. pid \<in> {0, 3, 4} \<Longrightarrow>
      length (filter (\<lambda>r. position_id r = pid) ex_withdrawal_df) \<ge> 2"
    by (auto simp: ex_withdrawal_df_def ex_withdrawal_feed_def ex_deal_def ex_balance_def)
  have ids: "map position_id ex_withdrawal_df = [3, 0, 3, 4, 4, 0]"
    by (simp add: ex_withdrawal_df_def ex_withdrawal_feed_def ex_deal_def ex_balance_def)
  have "\<forall>r \<in> set ex_withdrawal_df. position_id r \<in> {0, 3, 4}"
  proof -
    have "position_id ` set ex_withdrawal_df = set (map position_id ex_withdrawal_df)" by simp
    then show ?thesis unfolding ids by auto
  qed
  then have f: "filter (\<lambda>r. position_id r \<in> set (completed_positions ex_withdrawal_df))
      ex_withdrawal_df = ex_withdrawal_df"
    using c by (simp add: completed_positions_iff)
  have b: "build_balance_df (Some ex_withdrawal_feed) = ex_withdrawal_balance"
    by (simp add: build_balance_df_def ex_withdrawal_feed_def ex_deal_def ex_balance_def
          ex_withdrawal_balance_def date_of_def)
  have ne: "ex_withdrawal_df \<noteq> []"
    by (simp add: ex_withdrawal_df_def ex_withdrawal_feed_def)
  have od: "build_orders_dict None = Map.empty" by (simp add: build_orders_dict_def)
  show ?thesis
    unfolding get_trades_history_def Let_def od b
    using f ne by (simp add: ex_withdrawal_df_def [symmetric])
qed


lemma ex_withdrawal_trades:
  "position_trades ex_withdrawal_df 3 =
     map (attach_sl_tp Map.empty) [ex_deal 3 DEAL_ENTRY_IN 100 0, ex_deal 3 DEAL_ENTRY_OUT 200 (-5000)]"
  "position_trades ex_withdrawal_df 4 =
     map (attach_sl_tp Map.empty) [ex_deal 4 DEAL_ENTRY_IN 300 0, ex_deal 4 DEAL_ENTRY_OUT 90000 1000]"
  "position_trades ex_withdrawal_df 0 =
     map (attach_sl_tp Map.empty) [ex_balance 150 (-6000), ex_balance 90100 (-50)]"
  by (simp_all add: position_trades_def ex_withdrawal_df_def ex_withdrawal_feed_def
        attach_sl_tp_def ex_deal_def ex_balance_def)

lemma ex_withdrawal_open_close:
  "open_trades ex_withdrawal_df 3 \<noteq> []" "close_trades ex_withdrawal_df 3 \<noteq> []"
  "open_trades ex_withdrawal_df 4 \<noteq> []" "close_trades ex_withdrawal_df 4 \<noteq> []"
  "close_trades ex_withdrawal_df 0 = []"
  by (simp_all add: open_trades_def close_trades_def ex_withdrawal_trades)
     (simp_all add: attach_sl_tp_def ex_deal_def ex_balance_def)

lemma ex_withdrawal_positions:
  "calculate_position_times ex_withdrawal_df =
     [build_position ex_withdrawal_df 3, build_position ex_withdrawal_df 4]"
proof -
  have "unique (map position_id ex_withdrawal_df) = [3, 0, 4]"
    by (simp add: unique_def ex_withdrawal_df_def ex_withdrawal_feed_def ex_deal_def
          ex_balance_def)
  then show ?thesis
    by (simp add: calculate_position_times_def position_row_def
          ex_withdrawal_open_close)
qed

lemma ex_withdrawal_fields:
  "cp_date (build_position ex_withdrawal_df 3) = 0"
  "cp_date (build_position ex_withdrawal_df 4) = 1"
  "cp_close_time (build_position ex_withdrawal_df 3) = 200"
  "cp_close_time (build_position ex_withdrawal_df 4) = 90000"
  "cp_total_profit (build_position ex_withdrawal_df 3) = -5000"
  "cp_total_profit (build_position ex_withdrawal_df 4) = 1000"
  by (simp_all add: build_position_times build_position_sums ex_withdrawal_trades date_of_def)
     (simp_all add: attach_sl_tp_def ex_deal_def)

lemma ex_withdrawal_dates:
  "all_dates [build_position ex_withdrawal_df 3, build_position ex_withdrawal_df 4]
     ex_withdrawal_balance = [0, 1]"
  by (simp add: all_dates_def ex_withdrawal_fields ex_withdrawal_balance_def unique_def)

lemma ex_withdrawal_day0:
  "equity_drawdown_loop [build_position ex_withdrawal_df 3, build_position ex_withdrawal_df 4]
     ex_withdrawal_balance [0]
     (initial_equity, Inr \<lparr>max_equity = initial_equity, max_drawdown = 0\<rparr>) =
   (-1000, Inr \<lparr>max_equity = -1000, max_drawdown = 0\<rparr>)"
  by (simp add: Let_def ex_withdrawal_fields ex_withdrawal_balance_def initial_equity_def
        drawdown_update_def update_max_equity_def compute_drawdown_def py_div_def bind_ok_def)

lemma update_max_equity_zero_divisor:
  "update_max_equity max_eq current_equity daily_balance_change = Inl DivideByZero \<longleftrightarrow>
     daily_balance_change < 0 \<and> current_equity - daily_balance_change = 0"
  by (auto simp: update_max_equity_def py_div_def bind_ok_def)

lemma compute_drawdown_zero_divisor:
  "compute_drawdown max_eq current_equity = Inl DivideByZero \<longleftrightarrow> max_eq = 0"
  by (auto simp: compute_drawdown_def py_div_def bind_ok_def)

lemma drawdown_update_Inr:
  assumes "drawdown_update s current_equity daily_balance_change = Inr (s', drawdown)"
  shows "update_max_equity (max_equity s) current_equity daily_balance_change
           = Inr (max_equity s')"
    and "compute_drawdown (max_equity s') current_equity = Inr drawdown"
    and "max_drawdown s' = max (max_drawdown s) drawdown"
  using assms
  by (auto simp: drawdown_update_def bind_ok_def split: sum.splits)

lemma update_max_equity_ge:
  assumes "update_max_equity max_eq current_equity daily_balance_change = Inr m"
    and "daily_balance_change \<le> 0"
  shows "current_equity \<le> m"
  using assms
  by (auto simp: update_max_equity_def py_div_def bind_ok_def split: if_splits)

section \<open>Claims about get_trades_history\<close>




section \<open>Claims about the closed positions\<close>

text \<open>
  Claim C4. For a position id of the feed: a group of exactly one deal gives no closed
  position; a group of at least two deals with an opening and a closing deal gives
  exactly one closed position; a group of at least two deals that has no opening deal
  or no closing deal gives none, and this is no error: \<^verbatim>\<open>main\<close> finishes and
  \<^verbatim>\<open>run_analysis\<close> stores a completed task.
\<close>

theorem completed_groups_give_positions:
  "(let n = length (filter (\<lambda>d. d_position_id d = pid) deals);
        has_in = (\<exists>d \<in> set deals. d_position_id d = pid \<and> d_entry d = DEAL_ENTRY_IN);
        has_out = (\<exists>d \<in> set deals. d_position_id d = pid \<and> d_entry d = DEAL_ENTRY_OUT);
        produced = filter (\<lambda>p. cp_position_id p = pid)
                     (closed_positions (Some deals) account_history orders)
    in (n = 1 \<longrightarrow> produced = [])
     \<and> (n \<ge> 2 \<and> has_in \<and> has_out \<longrightarrow> length produced = 1)
     \<and> (n \<ge> 2 \<and> \<not> (has_in \<and> has_out) \<longrightarrow>
          produced = []
          \<and> (\<exists>a. main True (Some deals) account_history orders = Finished a)
          \<and> run_analysis True (Some deals) account_history orders = TaskCompleted))"
proof -
  define od where "od = build_orders_dict orders"
  define df where "df = map (attach_sl_tp od) deals"
  define df' where "df' = filter (\<lambda>r. position_id r \<in> set (completed_positions df)) df"
  define n where "n = length (filter (\<lambda>d. d_position_id d = pid) deals)"
  have n: "length (filter (\<lambda>r. position_id r = pid) df) = n"
    by (simp add: df_def n_def filter_attach_sl_tp)
  have gth: "get_trades_history (Some deals) account_history orders =
      (if df' = [] then None else Some (df', build_balance_df account_history))"
    by (simp add: get_trades_history_def Let_def df'_def df_def od_def)
  have prod: "filter (\<lambda>p. cp_position_id p = pid)
                (closed_positions (Some deals) account_history orders) =
      (if df' = [] then [] else filter (\<lambda>p. cp_position_id p = pid) (calculate_position_times df'))"
    by (simp add: closed_positions_def gth)
  have mem: "pid \<in> position_id ` set df' \<longleftrightarrow> n \<ge> 2"
  proof -
    have "pid \<in> position_id ` set df' \<longleftrightarrow> filter (\<lambda>r. position_id r = pid) df' \<noteq> []"
      by (auto simp: filter_empty_conv)
    also have "\<dots> \<longleftrightarrow> n \<ge> 2"
      using n unfolding df'_def filter_completed by auto
    finally show ?thesis .
  qed
  have row: "position_row df' pid \<noteq> None \<longleftrightarrow>
      n \<ge> 2 \<and> (\<exists>d \<in> set deals. d_position_id d = pid \<and> d_entry d = DEAL_ENTRY_IN)
            \<and> (\<exists>d \<in> set deals. d_position_id d = pid \<and> d_entry d = DEAL_ENTRY_OUT)"
    unfolding df'_def position_row_completed n by (simp add: df_def)
  have calc: "filter (\<lambda>p. cp_position_id p = pid) (calculate_position_times df') =
      (if n \<ge> 2 then (case position_row df' pid of None \<Rightarrow> [] | Some p \<Rightarrow> [p]) else [])"
    by (simp add: filter_calculate_position_times mem)
  have nonempty: "df' \<noteq> []" if "n \<ge> 2"
    using mem that by auto
  let ?produced = "filter (\<lambda>p. cp_position_id p = pid)
                     (closed_positions (Some deals) account_history orders)"
  let ?has_in = "\<exists>d \<in> set deals. d_position_id d = pid \<and> d_entry d = DEAL_ENTRY_IN"
  let ?has_out = "\<exists>d \<in> set deals. d_position_id d = pid \<and> d_entry d = DEAL_ENTRY_OUT"
  have p1: "?produced = []" if "n = 1"
    using that prod calc by simp
  have p2: "length ?produced = 1" if "n \<ge> 2" ?has_in ?has_out
  proof -
    from that row obtain p where "position_row df' pid = Some p" by blast
    then show ?thesis using that(1) prod calc nonempty by simp
  qed
  have p3: "?produced = []" if "n \<ge> 2" "\<not> (?has_in \<and> ?has_out)"
  proof -
    from that row have "position_row df' pid = None" by blast
    then show ?thesis using prod calc by simp
  qed
  have m: "main True (Some deals) account_history orders =
             Finished (analyze_trades_by_day df' (build_balance_df account_history))"
    if "n \<ge> 2"
    using nonempty [OF that] by (simp add: main_def gth unpack_pair_def)
  have r: "run_analysis True (Some deals) account_history orders = TaskCompleted" if "n \<ge> 2"
    using nonempty [OF that] by (simp add: run_analysis_def gth unpack_pair_def)
  show ?thesis
    unfolding Let_def n_def [symmetric] using p1 p2 p3 m r by blast
qed

theorem completed_groups_give_positions_witness:
  "(length (filter (\<lambda>d. d_position_id d = 9) ex_deals) = 1
    \<and> filter (\<lambda>p. cp_position_id p = 9) (closed_positions (Some ex_deals) None None) = [])
   \<and> (length (filter (\<lambda>d. d_position_id d = 7) ex_deals) = 2
    \<and> length (filter (\<lambda>p. cp_position_id p = 7)
                (closed_positions (Some ex_deals) None None)) = 1)
   \<and> (length (filter (\<lambda>d. d_position_id d = 10) ex_deals) = 2
    \<and> filter (\<lambda>p. cp_position_id p = 10) (closed_positions (Some ex_deals) None None) = []
    \<and> run_analysis True (Some ex_deals) None None = TaskCompleted)"
proof (intro conjI)
  show "length (filter (\<lambda>d. d_position_id d = 9) ex_deals) = 1"
    by (simp add: ex_deals_def ex_deal_def)
  then show "filter (\<lambda>p. cp_position_id p = 9) (closed_positions (Some ex_deals) None None) = []"
    using completed_groups_give_positions [of 9 ex_deals None None]
    by (simp add: Let_def)
next
  show "length (filter (\<lambda>d. d_position_id d = 7) ex_deals) = 2"
    by (simp add: ex_deals_def ex_deal_def)
  show "length (filter (\<lambda>p. cp_position_id p = 7)
                (closed_positions (Some ex_deals) None None)) = 1"
    using completed_groups_give_positions [of 7 ex_deals None None]
    by (simp add: Let_def ex_deals_def ex_deal_def)
next
  show "length (filter (\<lambda>d. d_position_id d = 10) ex_deals) = 2"
    by (simp add: ex_deals_def ex_deal_def)
  show "filter (\<lambda>p. cp_position_id p = 10) (closed_positions (Some ex_deals) None None) = []"
    using completed_groups_give_positions [of 10 ex_deals None None]
    by (simp add: Let_def ex_deals_def ex_deal_def)
  show "run_analysis True (Some ex_deals) None None = TaskCompleted"
    using completed_groups_give_positions [of 10 ex_deals None None]
    by (simp add: Let_def ex_deals_def ex_deal_def)
qed



text \<open>
  Claim C5. For every closed position the close reason and the slippage come from the
  \<open>sl\<close> and \<open>tp\<close> of the close record (the latest closing deal of the group): a
  stop loss that is present and not zero gives the reason \<open>CT_sl\<close> with the stop
  loss as reference price, also when the take profit is not zero; otherwise a take
  profit that is present and not zero gives \<open>CT_tp\<close> with the take profit as
  reference price; otherwise the reason is \<open>CT_market\<close>, with no reference price and
  slippage 0. With a reference price the slippage is the absolute difference of the
  close price and the reference price. So the slippage is never negative, and a market
  close has slippage 0.
\<close>

theorem close_reason_and_slippage:
  assumes "p \<in> set (calculate_position_times df)"
  shows "(let close_trade = last (close_trades df (cp_position_id p)) in
     close_trade \<in> set df \<and> position_id close_trade = cp_position_id p
     \<and> entry close_trade = DEAL_ENTRY_OUT \<and> cp_close_price p = price close_trade
     \<and> (present_nonzero (sl close_trade) \<longrightarrow>
           cp_close_type p = CT_sl \<and> cp_sl_tp_price p = sl close_trade
           \<and> cp_slippage p = \<bar>cp_close_price p - the (sl close_trade)\<bar>)
     \<and> (\<not> present_nonzero (sl close_trade) \<and> present_nonzero (tp close_trade) \<longrightarrow>
           cp_close_type p = CT_tp \<and> cp_sl_tp_price p = tp close_trade
           \<and> cp_slippage p = \<bar>cp_close_price p - the (tp close_trade)\<bar>)
     \<and> (\<not> present_nonzero (sl close_trade) \<and> \<not> present_nonzero (tp close_trade) \<longrightarrow>
           cp_close_type p = CT_market \<and> cp_sl_tp_price p = None \<and> cp_slippage p = 0)
     \<and> 0 \<le> cp_slippage p
     \<and> (cp_close_type p = CT_market \<longrightarrow> cp_slippage p = 0))"
proof -
  from assms obtain pid where p: "p = build_position df pid"
    and ne: "close_trades df pid \<noteq> []"
    unfolding calculate_position_times_iff position_row_Some by blast
  note c = classify_close_cases [of "last (close_trades df pid)"]
  show ?thesis
    unfolding p build_position_id Let_def build_position_close
    using last_close_trades [OF ne] c
      classify_close_slippage [of "last (close_trades df pid)"]
    by auto
qed

theorem close_reason_and_slippage_witness:
  "(build_position ex_df 7 \<in> set (calculate_position_times ex_df)
    \<and> present_nonzero (sl (last (close_trades ex_df 7)))
    \<and> cp_close_type (build_position ex_df 7) = CT_sl
    \<and> cp_sl_tp_price (build_position ex_df 7) = Some 1.21
    \<and> cp_close_price (build_position ex_df 7) = 1.2105
    \<and> cp_slippage (build_position ex_df 7) = 0.0005)
   \<and> (build_position (ex_pair (Some 0) (Some 1.2)) 8
        \<in> set (calculate_position_times (ex_pair (Some 0) (Some 1.2)))
    \<and> present_nonzero (sl (last (close_trades (ex_pair (Some 0) (Some 1.2)) 8))) = False
    \<and> present_nonzero (tp (last (close_trades (ex_pair (Some 0) (Some 1.2)) 8)))
    \<and> cp_close_type (build_position (ex_pair (Some 0) (Some 1.2)) 8) = CT_tp
    \<and> cp_sl_tp_price (build_position (ex_pair (Some 0) (Some 1.2)) 8) = Some 1.2
    \<and> cp_slippage (build_position (ex_pair (Some 0) (Some 1.2)) 8) = 0.005)
   \<and> (build_position (ex_pair None None) 8 \<in> set (calculate_position_times (ex_pair None None))
    \<and> present_nonzero (sl (last (close_trades (ex_pair None None) 8))) = False
    \<and> present_nonzero (tp (last (close_trades (ex_pair None None) 8))) = False
    \<and> cp_close_type (build_position (ex_pair None None) 8) = CT_market
    \<and> cp_sl_tp_price (build_position (ex_pair None None) 8) = None
    \<and> cp_slippage (build_position (ex_pair None None) 8) = 0)"
proof (intro conjI)
  note a = close_reason_and_slippage [OF ex_position_mem]
  show "build_position ex_df 7 \<in> set (calculate_position_times ex_df)"
    by (rule ex_position_mem)
  show "present_nonzero (sl (last (close_trades ex_df 7)))"
    by (simp add: close_trades_ex_df present_nonzero_def ex_close_def)
  then show "cp_close_type (build_position ex_df 7) = CT_sl"
    using a by (simp add: Let_def)
  show "cp_sl_tp_price (build_position ex_df 7) = Some 1.21"
    using a by (simp add: close_trades_ex_df Let_def present_nonzero_def ex_close_def)
  show "cp_close_price (build_position ex_df 7) = 1.2105"
    using a by (simp add: close_trades_ex_df Let_def present_nonzero_def ex_close_def)
  show "cp_slippage (build_position ex_df 7) = 0.0005"
    using a by (simp add: close_trades_ex_df Let_def present_nonzero_def ex_close_def)
next
  let ?df = "ex_pair (Some 0) (Some 1.2)"
  note b = close_reason_and_slippage [OF ex_pair_mem, of "Some 0" "Some 1.2"]
  show "build_position ?df 8 \<in> set (calculate_position_times ?df)"
    by (rule ex_pair_mem)
  show "present_nonzero (sl (last (close_trades ?df 8))) = False"
    by (simp add: close_trades_ex_pair present_nonzero_def)
  show "present_nonzero (tp (last (close_trades ?df 8)))"
    by (simp add: close_trades_ex_pair present_nonzero_def)
  show "cp_close_type (build_position ?df 8) = CT_tp"
    using b by (simp add: close_trades_ex_pair Let_def present_nonzero_def)
  show "cp_sl_tp_price (build_position ?df 8) = Some 1.2"
    using b by (simp add: close_trades_ex_pair Let_def present_nonzero_def)
  show "cp_slippage (build_position ?df 8) = 0.005"
    using b by (simp add: close_trades_ex_pair Let_def present_nonzero_def ex_close_def)
next
  let ?df = "ex_pair None None"
  note c = close_reason_and_slippage [OF ex_pair_mem, of None None]
  show "build_position ?df 8 \<in> set (calculate_position_times ?df)"
    by (rule ex_pair_mem)
  show "present_nonzero (sl (last (close_trades ?df 8))) = False"
    by (simp add: close_trades_ex_pair present_nonzero_def)
  show "present_nonzero (tp (last (close_trades ?df 8))) = False"
    by (simp add: close_trades_ex_pair present_nonzero_def)
  show "cp_close_type (build_position ?df 8) = CT_market"
    using c by (simp add: close_trades_ex_pair Let_def present_nonzero_def)
  show "cp_sl_tp_price (build_position ?df 8) = None"
    using c by (simp add: close_trades_ex_pair Let_def present_nonzero_def)
  show "cp_slippage (build_position ?df 8) = 0"
    using c by (simp add: close_trades_ex_pair Let_def present_nonzero_def)
qed

text \<open>
  Claim C6. Every closed position built from a deal group has as \<open>profit\<close>,
  \<open>commission\<close> and \<open>swap\<close> the sums of those columns over all deals of the
  group (all rows of \<open>df\<close> with its position id, partial fills included), and its
  \<open>total_profit\<close> is the sum of the three.
\<close>

theorem position_sums_over_all_deals:
  assumes "p \<in> set (calculate_position_times df)"
  shows "cp_profit p = sum_list (map profit (filter (\<lambda>r. position_id r = cp_position_id p) df))
       \<and> cp_commission p =
           sum_list (map commission (filter (\<lambda>r. position_id r = cp_position_id p) df))
       \<and> cp_swap p = sum_list (map swap (filter (\<lambda>r. position_id r = cp_position_id p) df))
       \<and> cp_total_profit p = cp_profit p + cp_commission p + cp_swap p"
proof -
  from assms obtain pid where p: "p = build_position df pid"
    unfolding calculate_position_times_iff position_row_Some by blast
  show ?thesis
    unfolding p build_position_id
    by (simp add: build_position_sums sum_list_position_trades)
qed

theorem position_sums_over_all_deals_witness:
  "build_position ex_df 7 \<in> set (calculate_position_times ex_df)
   \<and> cp_profit (build_position ex_df 7) = -40
   \<and> cp_commission (build_position ex_df 7) = -3
   \<and> cp_swap (build_position ex_df 7) = -2
   \<and> cp_total_profit (build_position ex_df 7) = -45"
  using position_sums_over_all_deals [OF ex_position_mem] ex_position_mem
  by (simp add: ex_df_def ex_open_def ex_partial_def ex_close_def)

text \<open>
  Claim C10. For every closed position, \<open>open_time\<close> is the minimum and
  \<open>close_time\<close> the maximum of the deal timestamps over all deals of the group,
  whatever their entry kind, so the holding time, their difference, is never
  negative although nothing clamps it.
\<close>

theorem open_close_times_min_max:
  assumes "p \<in> set (calculate_position_times df)"
  shows "cp_open_time p =
           Min (set (map time_gmt (filter (\<lambda>r. position_id r = cp_position_id p) df)))
       \<and> cp_close_time p =
           Max (set (map time_gmt (filter (\<lambda>r. position_id r = cp_position_id p) df)))
       \<and> cp_holding_time p = cp_close_time p - cp_open_time p
       \<and> 0 \<le> cp_holding_time p"
proof -
  from assms obtain pid where p: "p = build_position df pid"
    and ne: "open_trades df pid \<noteq> []"
    unfolding calculate_position_times_iff position_row_Some by blast
  let ?T = "set (map time_gmt (filter (\<lambda>r. position_id r = pid) df))"
  have eq: "set (map time_gmt (position_trades df pid)) = ?T"
    by (simp add: position_trades_def)
  from ne have "position_trades df pid \<noteq> []" by (auto simp: open_trades_def)
  then have "map time_gmt (position_trades df pid) \<noteq> []" by simp
  then have "set (map time_gmt (position_trades df pid)) \<noteq> {}"
    by (simp only: set_empty, simp)
  then have nonempty: "?T \<noteq> {}" unfolding eq .
  have "finite ?T" by simp
  then have "Min ?T \<le> Max ?T" using nonempty
    by (meson Min_in Max_ge)
  then show ?thesis
    unfolding p build_position_id by (simp only: build_position_times eq) simp
qed

theorem open_close_times_min_max_witness:
  "build_position ex_df 7 \<in> set (calculate_position_times ex_df)
   \<and> cp_open_time (build_position ex_df 7) = 100
   \<and> cp_close_time (build_position ex_df 7) = 90000
   \<and> cp_holding_time (build_position ex_df 7) = 89900"
  using open_close_times_min_max [OF ex_position_mem] ex_position_mem
  by (simp add: ex_df_def ex_open_def ex_partial_def ex_close_def)

text \<open>The times are those of the group, not of the opening and closing deal: with a
  closing deal dated before the opening deal, \<open>open_time\<close> is earlier than the time
  of the earliest opening deal.\<close>

lemma open_time_before_earliest_in:
  "cp_open_time (build_position [ex_open, ex_early_out] 7) = 50 \<and>
   time_gmt (hd (open_trades [ex_open, ex_early_out] 7)) = 100"
  by (simp add: build_position_times open_trades_def position_trades_def
        ex_early_out_def ex_open_def ex_partial_def)

section \<open>Claims about the aggregates\<close>

text \<open>
  Claim C8. For every group of closed positions, and so for every group by date and
  symbol of \<^verbatim>\<open>analyze_trades_by_day\<close> and every group by date of
  \<^verbatim>\<open>save_daily_trades\<close>: the win rate is the share of profitable positions times
  100, and 0 for an empty group, so it lies between 0 and 100; the profit/loss ratio
  is the mean price change of the profitable positions over the mean price change of
  the others, and 0 when there are no others or their mean is 0, so it is never
  negative. None of these computations divides by zero: each returns a value, and both
  lists of summaries are produced.
\<close>

theorem win_rate_and_profit_loss_ratio:
  "(\<forall>grp. set grp \<subseteq> set (calculate_position_times df) \<longrightarrow>
       win_rate grp = Inr (spec_win_rate grp)
     \<and> 0 \<le> spec_win_rate grp \<and> spec_win_rate grp \<le> 100
     \<and> profit_loss_ratio grp = Inr (spec_profit_loss_ratio grp)
     \<and> 0 \<le> spec_profit_loss_ratio grp)
   \<and> (\<exists>stats. daily_stats (calculate_position_times df) = Inr stats \<and>
        (\<forall>st \<in> set stats.
           st_win_rate st =
             spec_win_rate (filter (\<lambda>p. cp_date p = st_date st \<and> cp_symbol p = st_symbol st)
                              (calculate_position_times df))
         \<and> st_profit_loss_ratio st =
             spec_profit_loss_ratio
               (filter (\<lambda>p. cp_date p = st_date st \<and> cp_symbol p = st_symbol st)
                  (calculate_position_times df))))
   \<and> (\<exists>rows. day_summaries (calculate_position_times df) = Inr rows \<and>
        (\<forall>s \<in> set rows.
           ds_win_rate s =
             spec_win_rate (filter (\<lambda>p. cp_date p = ds_date s) (calculate_position_times df))
         \<and> ds_profit_loss_ratio s =
             spec_profit_loss_ratio
               (filter (\<lambda>p. cp_date p = ds_date s) (calculate_position_times df))))"
proof -
  let ?pts = "calculate_position_times df"
  have A: "win_rate grp = Inr (spec_win_rate grp)
     \<and> 0 \<le> spec_win_rate grp \<and> spec_win_rate grp \<le> 100
     \<and> profit_loss_ratio grp = Inr (spec_profit_loss_ratio grp)
     \<and> 0 \<le> spec_profit_loss_ratio grp" if "set grp \<subseteq> set ?pts" for grp
  proof -
    from that have "\<forall>p \<in> set grp. 0 \<le> cp_price_change p"
      using price_change_nonneg by blast
    from profit_loss_ratio_spec [OF this] show ?thesis
      by (simp add: win_rate_spec spec_win_rate_bounds)
  qed
  obtain stats where stats: "daily_stats ?pts = Inr stats"
    "\<forall>st \<in> set stats.
        win_rate (filter (\<lambda>p. cp_date p = st_date st \<and> cp_symbol p = st_symbol st) ?pts)
          = Inr (st_win_rate st)
      \<and> profit_loss_ratio
          (filter (\<lambda>p. cp_date p = st_date st \<and> cp_symbol p = st_symbol st) ?pts)
          = Inr (st_profit_loss_ratio st)"
    using daily_stats_ok [of ?pts] by blast
  obtain rows where rows: "day_summaries ?pts = Inr rows"
    "\<forall>s \<in> set rows.
        win_rate (filter (\<lambda>p. cp_date p = ds_date s) ?pts) = Inr (ds_win_rate s)
      \<and> profit_loss_ratio (filter (\<lambda>p. cp_date p = ds_date s) ?pts)
          = Inr (ds_profit_loss_ratio s)"
    using day_summaries_ok [of ?pts] by blast
  have B: "st_win_rate st =
             spec_win_rate (filter (\<lambda>p. cp_date p = st_date st \<and> cp_symbol p = st_symbol st) ?pts)
         \<and> st_profit_loss_ratio st =
             spec_profit_loss_ratio
               (filter (\<lambda>p. cp_date p = st_date st \<and> cp_symbol p = st_symbol st) ?pts)"
    if "st \<in> set stats" for st
  proof -
    let ?g = "filter (\<lambda>p. cp_date p = st_date st \<and> cp_symbol p = st_symbol st) ?pts"
    have "set ?g \<subseteq> set ?pts" by auto
    from A [OF this] stats(2) that show ?thesis by simp
  qed
  have C: "ds_win_rate s = spec_win_rate (filter (\<lambda>p. cp_date p = ds_date s) ?pts)
         \<and> ds_profit_loss_ratio s =
             spec_profit_loss_ratio (filter (\<lambda>p. cp_date p = ds_date s) ?pts)"
    if "s \<in> set rows" for s
  proof -
    let ?g = "filter (\<lambda>p. cp_date p = ds_date s) ?pts"
    have "set ?g \<subseteq> set ?pts" by auto
    from A [OF this] rows(2) that show ?thesis by simp
  qed
  show ?thesis using A B C stats(1) rows(1) by blast
qed


theorem win_rate_and_profit_loss_ratio_witness:
  "win_rate (calculate_position_times ex_win_loss) = Inr 50
   \<and> profit_loss_ratio (calculate_position_times ex_win_loss) = Inr 2
   \<and> win_rate [] = Inr 0 \<and> profit_loss_ratio [] = Inr 0
   \<and> (\<exists>stats. daily_stats (calculate_position_times ex_win_loss) = Inr stats)"
proof -
  note t = win_rate_and_profit_loss_ratio [of ex_win_loss]
  from t have a: "win_rate (calculate_position_times ex_win_loss) =
        Inr (spec_win_rate (calculate_position_times ex_win_loss))
     \<and> profit_loss_ratio (calculate_position_times ex_win_loss) =
        Inr (spec_profit_loss_ratio (calculate_position_times ex_win_loss))"
    by blast
  from t have b: "win_rate [] = Inr (spec_win_rate [])
     \<and> profit_loss_ratio [] = Inr (spec_profit_loss_ratio [])"
    by simp
  from t have c: "\<exists>stats. daily_stats (calculate_position_times ex_win_loss) = Inr stats"
    by blast
  have "spec_win_rate (calculate_position_times ex_win_loss) = 50"
    by (simp add: spec_win_rate_def calculate_position_times_ex_win_loss ex_win_loss_fields)
  moreover have "spec_profit_loss_ratio (calculate_position_times ex_win_loss) = 2"
    by (simp add: spec_profit_loss_ratio_def mean_price_change_def Let_def
          calculate_position_times_ex_win_loss ex_win_loss_fields)
  moreover have "spec_win_rate [] = 0" "spec_profit_loss_ratio [] = 0"
    by (simp_all add: spec_win_rate_def spec_profit_loss_ratio_def)
  ultimately show ?thesis using a b c by simp
qed

section \<open>Claims about the equity recurrence\<close>

text \<open>
  Claim C9. From the same closed positions and balance rows, and the initial equity
  10000, the equity after each day in the recurrence of \<^verbatim>\<open>analyze_trades_by_day\<close>
  is the equity of that day's row in \<^verbatim>\<open>save_daily_trades\<close>: the state of the
  recurrence after the first \<open>k + 1\<close> dates has the equity of row \<open>k\<close>, and the
  final equity is that of the last row. Both loops run over the same dates, the
  ascending list of the distinct close dates and balance dates.
\<close>

theorem equity_values_agree:
  "(let position_times_sorted = sort_key cp_close_time position_times;
        dates = all_dates position_times_sorted balance_df;
        rows = equity_data position_times balance_df;
        start = (initial_equity, Inr \<lparr>max_equity = initial_equity, max_drawdown = 0\<rparr>)
    in map er_date rows = dates
     \<and> sorted dates \<and> distinct dates
     \<and> set dates = cp_date ` set position_times \<union> b_date ` set balance_df
     \<and> (\<forall>k < length dates.
           er_equity (rows ! k) =
           fst (equity_drawdown_loop position_times_sorted balance_df (take (Suc k) dates) start))
     \<and> fst (equity_drawdown position_times balance_df) =
         last (initial_equity # map er_equity rows))"
proof -
  let ?s = "sort_key cp_close_time position_times"
  let ?d = "all_dates ?s balance_df"
  let ?rows = "equity_rows_loop ?s balance_df ?d initial_equity"
  let ?start = "(initial_equity, Inr \<lparr>max_equity = initial_equity, max_drawdown = 0\<rparr>)"
  have r: "equity_data position_times balance_df = ?rows"
    by (simp add: equity_data_def Let_def)
  have 1: "map er_date ?rows = ?d"
    by (rule equity_rows_loop_dates)
  have 2: "sorted ?d" "distinct ?d"
    "set ?d = cp_date ` set position_times \<union> b_date ` set balance_df"
    by (simp_all add: all_dates_props)
  have 3: "\<forall>k < length ?d.
      er_equity (?rows ! k) = fst (equity_drawdown_loop ?s balance_df (take (Suc k) ?d) ?start)"
    using equity_rows_loop_nth by blast
  have 4: "fst (equity_drawdown position_times balance_df) =
      last (initial_equity # map er_equity ?rows)"
    unfolding equity_drawdown_def Let_def by (rule equity_drawdown_loop_final)
  show ?thesis
    unfolding Let_def r using 1 2 3 4 by blast
qed

theorem equity_values_agree_witness:
  "all_dates (sort_key cp_close_time (calculate_position_times ex_df)) ex_balance_df = [0, 1]
   \<and> map er_date (equity_data (calculate_position_times ex_df) ex_balance_df) = [0, 1]
   \<and> map er_equity (equity_data (calculate_position_times ex_df) ex_balance_df) = [10500, 10455]
   \<and> fst (equity_drawdown_loop (sort_key cp_close_time (calculate_position_times ex_df))
             ex_balance_df [0]
             (initial_equity, Inr \<lparr>max_equity = initial_equity, max_drawdown = 0\<rparr>)) = 10500
   \<and> fst (equity_drawdown_loop (sort_key cp_close_time (calculate_position_times ex_df))
             ex_balance_df [0, 1]
             (initial_equity, Inr \<lparr>max_equity = initial_equity, max_drawdown = 0\<rparr>)) = 10455
   \<and> fst (equity_drawdown (calculate_position_times ex_df) ex_balance_df) = 10455"
proof -
  let ?rows = "equity_data (calculate_position_times ex_df) ex_balance_df"
  let ?s = "sort_key cp_close_time (calculate_position_times ex_df)"
  let ?start = "(initial_equity, Inr \<lparr>max_equity = initial_equity, max_drawdown = 0\<rparr>)"
  note t = equity_values_agree [of "calculate_position_times ex_df" ex_balance_df,
      unfolded Let_def all_dates_ex]
  have rows: "map er_equity ?rows = [10500, 10455]"
    by (simp add: equity_data_def all_dates_ex Let_def)
       (simp add: calculate_position_times_ex_df ex_df_fields ex_balance_df_def
          initial_equity_def)
  then have len: "length ?rows = 2"
    by (metis length_map length_Cons list.size(3) numeral_2_eq_2)
  have "map er_equity ?rows ! 0 = 10500" "map er_equity ?rows ! 1 = 10455"
    by (simp_all add: rows)
  then have n: "er_equity (?rows ! 0) = 10500" "er_equity (?rows ! 1) = 10455"
    using len by simp_all
  from t have k: "\<forall>k<2. er_equity (?rows ! k) =
      fst (equity_drawdown_loop ?s ex_balance_df (take (Suc k) [0, 1]) ?start)"
    by simp
  from k [rule_format, of 0] n(1)
  have a: "fst (equity_drawdown_loop ?s ex_balance_df [0] ?start) = 10500" by simp
  from k [rule_format, of 1] n(2)
  have b: "fst (equity_drawdown_loop ?s ex_balance_df [0, 1] ?start) = 10455" by simp
  from t have c: "fst (equity_drawdown (calculate_position_times ex_df) ex_balance_df) = 10455"
    by (simp add: rows)
  from t have d: "map er_date ?rows = [0, 1]" by simp
  show ?thesis using all_dates_ex d rows a b c by simp
qed

text \<open>
  Claim C1 says that on a withdrawal day the recurrence skips the rescaling division
  whenever \<open>current_equity - daily_balance_change\<close> is 0, takes the current equity as
  the baseline, and so never divides by zero. The source has no such guard (lines 680
  to 683): the quotient is evaluated with the divisor 0. In the feed below, day 0
  closes a position with a loss of 5000 and withdraws 6000, which leaves the equity
  and the baseline at -1000; day 1 closes a position with a profit of 1000 and
  withdraws 50, so the equity is -50 and the divisor \<open>-50 - (-50)\<close> is 0.
\<close>

theorem withdrawal_divides_by_zero:
  "update_max_equity (-1000) (-50) (-50) = Inl DivideByZero
   \<and> spec_baseline_update (-1000) (-50) (-50) = -50
   \<and> equity_drawdown_loop (sort_key cp_close_time (calculate_position_times ex_withdrawal_df))
        ex_withdrawal_balance [0]
        (initial_equity, Inr \<lparr>max_equity = initial_equity, max_drawdown = 0\<rparr>) =
       (-1000, Inr \<lparr>max_equity = -1000, max_drawdown = 0\<rparr>)
   \<and> equity_drawdown (calculate_position_times ex_withdrawal_df) ex_withdrawal_balance =
       (-50, Inl DivideByZero)
   \<and> main True (Some ex_withdrawal_feed) (Some ex_withdrawal_feed) None =
       Finished (analyze_trades_by_day ex_withdrawal_df ex_withdrawal_balance)
   \<and> analyze_trades_by_day ex_withdrawal_df ex_withdrawal_balance =
       Analysed (-50, Inl DivideByZero)
         (save_daily_trades (calculate_position_times ex_withdrawal_df) ex_withdrawal_balance)
         (daily_stats (calculate_position_times ex_withdrawal_df))"
proof (intro conjI)
  show "update_max_equity (-1000) (-50) (-50) = Inl DivideByZero"
    by (simp add: update_max_equity_def py_div_def bind_ok_def)
  show "spec_baseline_update (-1000) (-50) (-50) = -50"
    by (simp add: spec_baseline_update_def)
  have s: "sort_key cp_close_time (calculate_position_times ex_withdrawal_df) =
      [build_position ex_withdrawal_df 3, build_position ex_withdrawal_df 4]"
    by (simp add: ex_withdrawal_positions ex_withdrawal_fields)
  show "equity_drawdown_loop (sort_key cp_close_time (calculate_position_times ex_withdrawal_df))
        ex_withdrawal_balance [0]
        (initial_equity, Inr \<lparr>max_equity = initial_equity, max_drawdown = 0\<rparr>) =
       (-1000, Inr \<lparr>max_equity = -1000, max_drawdown = 0\<rparr>)"
    unfolding s by (rule ex_withdrawal_day0)
  show e: "equity_drawdown (calculate_position_times ex_withdrawal_df) ex_withdrawal_balance =
       (-50, Inl DivideByZero)"
    unfolding equity_drawdown_def Let_def s ex_withdrawal_dates
    by (simp add: Let_def ex_withdrawal_fields ex_withdrawal_balance_def initial_equity_def
        drawdown_update_def update_max_equity_def compute_drawdown_def py_div_def bind_ok_def)
  show "main True (Some ex_withdrawal_feed) (Some ex_withdrawal_feed) None =
       Finished (analyze_trades_by_day ex_withdrawal_df ex_withdrawal_balance)"
    by (simp add: main_def ex_withdrawal_history unpack_pair_def)
  show "analyze_trades_by_day ex_withdrawal_df ex_withdrawal_balance =
       Analysed (-50, Inl DivideByZero)
         (save_daily_trades (calculate_position_times ex_withdrawal_df) ex_withdrawal_balance)
         (daily_stats (calculate_position_times ex_withdrawal_df))"
    unfolding analyze_trades_by_day_def Let_def e
    by (simp add: ex_withdrawal_positions)
qed

text \<open>Away from the zero divisor the source computes the specification's update.\<close>

lemma update_max_equity_spec:
  assumes "\<not> (daily_balance_change < 0 \<and> current_equity - daily_balance_change = 0)"
  shows "update_max_equity max_eq current_equity daily_balance_change =
           Inr (spec_baseline_update max_eq current_equity daily_balance_change)"
  using assms
  by (auto simp: update_max_equity_def spec_baseline_update_def py_div_def bind_ok_def)

text \<open>
  Claim C2 says that the day's drawdown is \<open>(max_equity - current_equity) / max_equity * 100\<close>
  when \<open>max_equity > 0\<close>, is 0 when \<open>max_equity \<le> 0\<close>, and lies between 0 and
  100 whenever \<open>max_equity > 0\<close>. The bounds fail on the code: a deposit is left out
  of the baseline (lines 680 and 681), so on a day with a deposit of 500 and no trade
  the equity 10500 exceeds the baseline 10000 and the drawdown is -5; and an equity
  below zero gives a drawdown above 100. Line 686 has no guard either: a negative
  baseline gives the quotient, not 0, and a baseline of 0 is divided by.
\<close>

theorem drawdown_unguarded_and_unbounded:
  "equity_drawdown_loop (sort_key cp_close_time (calculate_position_times ex_df))
        ex_balance_df [0]
        (initial_equity, Inr \<lparr>max_equity = initial_equity, max_drawdown = 0\<rparr>) =
       (10500, Inr \<lparr>max_equity = 10000, max_drawdown = 0\<rparr>)
   \<and> drawdown_update \<lparr>max_equity = 10000, max_drawdown = 0\<rparr> 10500 500 =
       Inr (\<lparr>max_equity = 10000, max_drawdown = 0\<rparr>, -5)
   \<and> \<not> (0 \<le> (-5 :: real))
   \<and> drawdown_update \<lparr>max_equity = 10000, max_drawdown = 0\<rparr> (-10000) 0 =
       Inr (\<lparr>max_equity = 10000, max_drawdown = 200\<rparr>, 200)
   \<and> \<not> ((200 :: real) \<le> 100)
   \<and> compute_drawdown (-1000) (-1500) = Inr (-50)
   \<and> spec_drawdown_pct (-1000) (-1500) = 0
   \<and> compute_drawdown 0 0 = Inl DivideByZero
   \<and> spec_drawdown_pct 0 0 = 0"
proof -
  have "equity_drawdown_loop (sort_key cp_close_time (calculate_position_times ex_df))
        ex_balance_df [0]
        (initial_equity, Inr \<lparr>max_equity = initial_equity, max_drawdown = 0\<rparr>) =
       (10500, Inr \<lparr>max_equity = 10000, max_drawdown = 0\<rparr>)"
    by (simp add: calculate_position_times_ex_df Let_def ex_df_fields ex_balance_df_def
          initial_equity_def drawdown_update_def update_max_equity_def compute_drawdown_def
          py_div_def bind_ok_def)
  then show ?thesis
    by (simp add: drawdown_update_def update_max_equity_def compute_drawdown_def py_div_def
          bind_ok_def spec_drawdown_pct_def)
qed

text \<open>
  Claim C2 as amended. On every day for which the recurrence computes a drawdown with
  \<open>max_equity > 0\<close>, the drawdown is \<open>(max_equity - current_equity) / max_equity * 100\<close>,
  the value of the specification's formula, and \<open>max_drawdown\<close> becomes the larger of its old value and the drawdown; the
  drawdown is at least 0 exactly when the equity does not exceed the baseline, which
  holds on every day without a deposit, and at most 100 exactly when the equity is
  not negative.
\<close>

theorem drawdown_formula_and_bounds:
  assumes "drawdown_update s current_equity daily_balance_change = Inr (s', drawdown)"
    and "max_equity s' > 0"
  shows "drawdown = (max_equity s' - current_equity) / max_equity s' * 100
       \<and> drawdown = spec_drawdown_pct (max_equity s') current_equity
       \<and> max_drawdown s' = max (max_drawdown s) drawdown
       \<and> (daily_balance_change \<le> 0 \<longrightarrow> 0 \<le> drawdown)
       \<and> (0 \<le> drawdown \<longleftrightarrow> current_equity \<le> max_equity s')
       \<and> (drawdown \<le> 100 \<longleftrightarrow> 0 \<le> current_equity)"
proof -
  note u = drawdown_update_Inr [OF assms(1)]
  from u(2) assms(2)
  have d: "drawdown = (max_equity s' - current_equity) / max_equity s' * 100"
    by (simp add: compute_drawdown_def py_div_def bind_ok_def)
  have nonneg: "0 \<le> drawdown \<longleftrightarrow> current_equity \<le> max_equity s'"
    unfolding d using assms(2) by (simp add: zero_le_mult_iff zero_le_divide_iff)
  have le: "drawdown \<le> 100 \<longleftrightarrow> 0 \<le> current_equity"
    unfolding d using assms(2) by (simp add: field_simps)
  have "0 \<le> drawdown" if "daily_balance_change \<le> 0"
    using update_max_equity_ge [OF u(1) that] nonneg by simp
  moreover have "drawdown = spec_drawdown_pct (max_equity s') current_equity"
    using d assms(2) by (simp add: spec_drawdown_pct_def)
  ultimately show ?thesis using d u(3) nonneg le by blast
qed

theorem drawdown_formula_and_bounds_witness:
  "(drawdown_update \<lparr>max_equity = 10000, max_drawdown = 0\<rparr> 9000 0 =
      Inr (\<lparr>max_equity = 10000, max_drawdown = 10\<rparr>, 10)
    \<and> (0::real) < 10000 \<and> (10::real) = (10000 - 9000) / 10000 * 100)
   \<and> (drawdown_update \<lparr>max_equity = 10000, max_drawdown = 10\<rparr> 8000 (-1000) =
      Inr (\<lparr>max_equity = 80000 / 9, max_drawdown = 10\<rparr>, 10)
    \<and> (0::real) < 80000 / 9 \<and> (10::real) = (80000 / 9 - 8000) / (80000 / 9) * 100)"
proof -
  have e: "drawdown_update \<lparr>max_equity = 10000, max_drawdown = 0\<rparr> 9000 0 =
     Inr (\<lparr>max_equity = 10000, max_drawdown = 10\<rparr>, 10)"
    by (simp add: drawdown_update_def update_max_equity_def compute_drawdown_def py_div_def
          bind_ok_def)
  have f: "drawdown_update \<lparr>max_equity = 10000, max_drawdown = 10\<rparr> 8000 (-1000) =
     Inr (\<lparr>max_equity = 80000 / 9, max_drawdown = 10\<rparr>, 10)"
    by (simp add: drawdown_update_def update_max_equity_def compute_drawdown_def py_div_def
          bind_ok_def)
  from drawdown_formula_and_bounds [OF e] drawdown_formula_and_bounds [OF f] e f
  show ?thesis by simp
qed

section \<open>Claims about the callers\<close>

text \<open>
  Claim C3 says that each caller of the history retrieval receives the no-data outcome
  and handles it without an exception. \<^verbatim>\<open>get_trades_history\<close> returns a bare None
  for an empty feed, and for a feed without a position of at least two deals; both
  callers unpack the result into two names before they test it, which raises
  TypeError. \<^verbatim>\<open>main\<close> has no handler, so the exception leaves it;
  \<^verbatim>\<open>run_analysis\<close> catches it and stores the TypeError's message, not
  \<^verbatim>\<open>No trade data found\<close>.
\<close>

theorem no_data_raises_type_error:
  "get_trades_history (Some []) None None = None
   \<and> main True (Some []) None None = Raised TypeError
   \<and> run_analysis True (Some []) None None =
       TaskFailed ''cannot unpack non-iterable NoneType object''
   \<and> get_trades_history (Some [ex_deal 9 DEAL_ENTRY_IN 150 0]) None None = None
   \<and> main True (Some [ex_deal 9 DEAL_ENTRY_IN 150 0]) None None = Raised TypeError
   \<and> main True None None None = Raised TypeError"
proof -
  have a: "get_trades_history (Some []) None None = None"
    by (simp add: get_trades_history_def Let_def)
  have b: "get_trades_history (Some [ex_deal 9 DEAL_ENTRY_IN 150 0]) None None = None"
    by (simp add: get_trades_history_def Let_def completed_positions_iff)
  have c: "get_trades_history None None None = None"
    by (simp add: get_trades_history_def)
  show ?thesis
    by (simp add: a b c main_def run_analysis_def unpack_pair_def exception_message_def)
qed

text \<open>In general, whenever the history retrieval returns None.\<close>

lemma no_data_raises:
  assumes "get_trades_history deals account_history orders = None"
  shows "main True deals account_history orders = Raised TypeError"
    and "run_analysis True deals account_history orders =
       TaskFailed ''cannot unpack non-iterable NoneType object''"
  using assms by (simp_all add: main_def run_analysis_def unpack_pair_def exception_message_def)

end
